theory Spec2Isabelle
  imports Complex_Main
begin

section \<open>JavaScript values used by the dashboard components\<close>

text \<open>
  The components read post records that come from JSON. A timestamp or a sentiment
  score is modelled as a real: a finite value with exact arithmetic. The metrics that
  the reach aggregator adds up are double-precision numbers, with the rounding of every
  addition and the values NaN and infinity (\<open>jsnumber\<close> below). A field that holds a
  timestamp is a \<open>jsval\<close>: absent, a number, a string or a Date object. A Date
  object is its time value, milliseconds since the epoch, or \<open>None\<close> for an invalid
  date (the time value NaN).
\<close>

type_synonym timeval = "int option"

datatype jsval = Undefined | Num real | Str string | DateObj timeval

text \<open>ToBoolean, as \<open>timestamp && ...\<close> applies it.\<close>

fun truthy :: "jsval \<Rightarrow> bool" where
  "truthy Undefined = False"
| "truthy (Num x) = (x \<noteq> 0)"
| "truthy (Str s) = (s \<noteq> [])"
| "truthy (DateObj t) = True"

datatype jserror = RangeError

section \<open>The ECMAScript Date library\<close>

text \<open>
  The built-in Date functions the components call, after ECMA-262 section 21.4.1
  (time values and the day, year, month and date functions on them).
\<close>

definition msPerDay :: int where
  "msPerDay = 86400000"

definition Day :: "int \<Rightarrow> int" where
  "Day t = t div msPerDay"

definition TimeWithinDay :: "int \<Rightarrow> int" where
  "TimeWithinDay t = t mod msPerDay"

definition DaysInYear :: "int \<Rightarrow> int" where
  "DaysInYear y =
     (if y mod 4 \<noteq> 0 then 365
      else if y mod 100 \<noteq> 0 then 366
      else if y mod 400 \<noteq> 0 then 365
      else 366)"

definition DayFromYear :: "int \<Rightarrow> int" where
  "DayFromYear y =
     365 * (y - 1970) + (y - 1969) div 4 - (y - 1901) div 100 + (y - 1601) div 400"

text \<open>
  The year of a day number: ECMA-262 asks for the largest \<open>y\<close> with
  \<open>DayFromYear y \<le> d\<close>. It is computed from the mean length of a year and
  corrected by at most one (\<open>YearFromDay_bracket\<close> below proves it is that year).
\<close>

definition YearFromDay :: "int \<Rightarrow> int" where
  "YearFromDay d =
     (let y = 1970 + (400 * d) div 146097 in
      if DayFromYear (y + 1) \<le> d then y + 1
      else if d < DayFromYear y then y - 1
      else y)"

definition YearFromTime :: "int \<Rightarrow> int" where
  "YearFromTime t = YearFromDay (Day t)"

definition InLeapYear :: "int \<Rightarrow> int" where
  "InLeapYear t = (if DaysInYear (YearFromTime t) = 366 then 1 else 0)"

definition DayWithinYear :: "int \<Rightarrow> int" where
  "DayWithinYear t = Day t - DayFromYear (YearFromTime t)"

text \<open>The day within the year on which month \<open>m\<close> (0 to 11) starts.\<close>

definition monthStart :: "int \<Rightarrow> int \<Rightarrow> int" where
  "monthStart leap m =
     (if m \<le> 0 then 0
      else if m = 1 then 31
      else if m = 2 then 59 + leap
      else if m = 3 then 90 + leap
      else if m = 4 then 120 + leap
      else if m = 5 then 151 + leap
      else if m = 6 then 181 + leap
      else if m = 7 then 212 + leap
      else if m = 8 then 243 + leap
      else if m = 9 then 273 + leap
      else if m = 10 then 304 + leap
      else 334 + leap)"

definition monthOfDay :: "int \<Rightarrow> int \<Rightarrow> int" where
  "monthOfDay leap d =
     (if d < 31 then 0
      else if d < 59 + leap then 1
      else if d < 90 + leap then 2
      else if d < 120 + leap then 3
      else if d < 151 + leap then 4
      else if d < 181 + leap then 5
      else if d < 212 + leap then 6
      else if d < 243 + leap then 7
      else if d < 273 + leap then 8
      else if d < 304 + leap then 9
      else if d < 334 + leap then 10
      else 11)"

definition MonthFromTime :: "int \<Rightarrow> int" where
  "MonthFromTime t = monthOfDay (InLeapYear t) (DayWithinYear t)"

definition DateFromTime :: "int \<Rightarrow> int" where
  "DateFromTime t =
     DayWithinYear t - monthStart (InLeapYear t) (MonthFromTime t) + 1"

definition HourFromTime :: "int \<Rightarrow> int" where
  "HourFromTime t = TimeWithinDay t div 3600000"

definition MinFromTime :: "int \<Rightarrow> int" where
  "MinFromTime t = (TimeWithinDay t div 60000) mod 60"

definition SecFromTime :: "int \<Rightarrow> int" where
  "SecFromTime t = (TimeWithinDay t div 1000) mod 60"

definition msFromTime :: "int \<Rightarrow> int" where
  "msFromTime t = t mod 1000"

text \<open>
  TimeClip: a number further than 8.64e15 ms from the epoch is no time value; any other
  is truncated towards zero.
\<close>

definition TimeClip :: "real \<Rightarrow> timeval" where
  "TimeClip x =
     (if \<bar>x\<bar> > 8640000000000000 then None
      else Some (if x \<ge> 0 then \<lfloor>x\<rfloor> else \<lceil>x\<rceil>))"

subsection \<open>Decimal digits\<close>

definition decimalDigits :: string where
  "decimalDigits = ''0123456789''"

definition digitChar :: "int \<Rightarrow> char" where
  "digitChar n = decimalDigits ! nat (n mod 10)"

fun position :: "char \<Rightarrow> string \<Rightarrow> int \<Rightarrow> int option" where
  "position c [] i = None"
| "position c (x # xs) i = (if c = x then Some i else position c xs (i + 1))"

definition digitVal :: "char \<Rightarrow> int option" where
  "digitVal c = position c decimalDigits 0"

definition pad2 :: "int \<Rightarrow> string" where
  "pad2 n = [digitChar (n div 10 mod 10), digitChar (n mod 10)]"

definition pad3 :: "int \<Rightarrow> string" where
  "pad3 n = digitChar (n div 100 mod 10) # pad2 n"

definition pad4 :: "int \<Rightarrow> string" where
  "pad4 n = digitChar (n div 1000 mod 10) # pad3 n"

definition pad6 :: "int \<Rightarrow> string" where
  "pad6 n = digitChar (n div 100000 mod 10) # digitChar (n div 10000 mod 10) # pad4 n"

text \<open>The value of a string of decimal digits, \<open>None\<close> when a character is no digit.\<close>

fun digitsVal :: "int \<Rightarrow> string \<Rightarrow> int option" where
  "digitsVal acc [] = Some acc"
| "digitsVal acc (c # cs) =
     (case digitVal c of None \<Rightarrow> None | Some d \<Rightarrow> digitsVal (10 * acc + d) cs)"

subsection \<open>Date.prototype.toISOString\<close>

text \<open>
  Years 0 to 9999 are written with four digits, any other year with a sign and six
  digits. An invalid date makes \<open>toISOString\<close> throw a RangeError.
\<close>

definition isoYear :: "int \<Rightarrow> string" where
  "isoYear y =
     (if 0 \<le> y \<and> y \<le> 9999 then pad4 y
      else if y < 0 then CHR ''-'' # pad6 (- y)
      else CHR ''+'' # pad6 y)"

definition isoDate :: "int \<Rightarrow> string" where
  "isoDate t =
     isoYear (YearFromTime t) @ ''-'' @ pad2 (MonthFromTime t + 1) @ ''-''
       @ pad2 (DateFromTime t)"

definition isoTime :: "int \<Rightarrow> string" where
  "isoTime t =
     pad2 (HourFromTime t) @ '':'' @ pad2 (MinFromTime t) @ '':'' @ pad2 (SecFromTime t)
       @ ''.'' @ pad3 (msFromTime t) @ ''Z''"

definition toISOString :: "timeval \<Rightarrow> jserror + string" where
  "toISOString date =
     (case date of
        None \<Rightarrow> Inl RangeError
      | Some t \<Rightarrow> Inr (isoDate t @ ''T'' @ isoTime t))"

text \<open>\<open>s.split('T')[0]\<close>: the part of \<open>s\<close> before its first \<open>T\<close>.\<close>

definition splitT0 :: "string \<Rightarrow> string" where
  "splitT0 s = takeWhile (\<lambda>c. c \<noteq> CHR ''T'') s"

subsection \<open>Date.parse and the Date constructor\<close>

text \<open>
  Of the ECMAScript date-time string format the model reads the date-only forms with
  a day, \<open>YYYY-MM-DD\<close> and \<open>+YYYYYY-MM-DD\<close> or \<open>-YYYYYY-MM-DD\<close>, when they name a day of
  the calendar and a time value in range: these are the strings \<open>toISOString\<close>
  writes before the \<open>T\<close>, and the standard fixes their meaning (midnight UTC). What
  \<open>Date.parse\<close> returns on any other string (a local time, which depends on the time
  zone, or a format the standard leaves to the engine) is the host's \<open>hostParse\<close>.
\<close>

definition leapOfYear :: "int \<Rightarrow> int" where
  "leapOfYear y = (if DaysInYear y = 366 then 1 else 0)"

definition DaysInMonth :: "int \<Rightarrow> int \<Rightarrow> int" where
  "DaysInMonth leap m =
     (if m = 1 then 28 + leap
      else if m = 3 \<or> m = 5 \<or> m = 8 \<or> m = 10 then 30
      else 31)"

definition maxTime :: int where
  "maxTime = 8640000000000000"

definition makeDate :: "int \<Rightarrow> int \<Rightarrow> int \<Rightarrow> timeval" where
  "makeDate y m d =
     (if 1 \<le> m \<and> m \<le> 12 \<and> 1 \<le> d \<and> d \<le> DaysInMonth (leapOfYear y) (m - 1)
      then
        (let t = (DayFromYear y + monthStart (leapOfYear y) (m - 1) + (d - 1)) * msPerDay
         in if \<bar>t\<bar> \<le> maxTime then Some t else None)
      else None)"

definition parseMonthDay :: "int \<Rightarrow> string \<Rightarrow> timeval" where
  "parseMonthDay y rest =
     (case rest of
        [h1, m1, m2, h2, d1, d2] \<Rightarrow>
          (if h1 = CHR ''-'' \<and> h2 = CHR ''-'' then
             (case digitsVal 0 [m1, m2] of
                None \<Rightarrow> None
              | Some m \<Rightarrow>
                  (case digitsVal 0 [d1, d2] of
                     None \<Rightarrow> None
                   | Some d \<Rightarrow> makeDate y m d))
           else None)
      | _ \<Rightarrow> None)"

definition parseDateOnly :: "string \<Rightarrow> timeval" where
  "parseDateOnly s =
     (if length s = 10 then
        (case digitsVal 0 (take 4 s) of
           None \<Rightarrow> None
         | Some y \<Rightarrow> parseMonthDay y (drop 4 s))
      else if length s = 13 \<and> hd s = CHR ''+'' then
        (case digitsVal 0 (take 6 (tl s)) of
           None \<Rightarrow> None
         | Some y \<Rightarrow> parseMonthDay y (drop 7 s))
      else if length s = 13 \<and> hd s = CHR ''-'' then
        (case digitsVal 0 (take 6 (tl s)) of
           None \<Rightarrow> None
         | Some y \<Rightarrow> if y = 0 then None else parseMonthDay (- y) (drop 7 s))
      else None)"

text \<open>
  What the components need of the engine and its locale: \<open>Date.parse\<close> outside the
  forms above, \<open>getTimezoneOffset\<close> (minutes, at a time value) and
  \<open>toLocaleDateString\<close> for the locale en-US with a short month and a numeric day.
\<close>

record host =
  hostParse :: "string \<Rightarrow> timeval"
  getTimezoneOffset :: "int \<Rightarrow> int"
  toLocaleDateString :: "timeval \<Rightarrow> string"

definition Date_parse :: "host \<Rightarrow> string \<Rightarrow> timeval" where
  "Date_parse h s =
     (case parseDateOnly s of
        Some t \<Rightarrow> Some t
      | None \<Rightarrow>
          (case hostParse h s of
             None \<Rightarrow> None
           | Some t \<Rightarrow> if \<bar>t\<bar> \<le> maxTime then Some t else None))"

text \<open>\<open>new Date(v)\<close>, as its time value.\<close>

fun newDate :: "host \<Rightarrow> jsval \<Rightarrow> timeval" where
  "newDate h Undefined = None"
| "newDate h (Num x) = TimeClip x"
| "newDate h (Str s) = Date_parse h s"
| "newDate h (DateObj t) = (case t of None \<Rightarrow> None | Some tv \<Rightarrow> TimeClip (real_of_int tv))"

section \<open>Grouping dates and display labels (SentimentAnalysis)\<close>

definition formatDateForGrouping :: "host \<Rightarrow> jsval \<Rightarrow> jserror + string" where
  "formatDateForGrouping h dateInput =
     (let date =
        (case dateInput of
           Num x \<Rightarrow> if x < 1000000000000 then newDate h (Num (x * 1000))
                    else newDate h dateInput
         | _ \<Rightarrow> newDate h dateInput)
      in if date = None then Inr []
         else (case toISOString date of
                 Inl e \<Rightarrow> Inl e
               | Inr s \<Rightarrow> Inr (splitT0 s)))"

definition formatDateForLabel :: "host \<Rightarrow> string \<Rightarrow> string" where
  "formatDateForLabel h dateStr =
     (case newDate h (Str dateStr) of
        None \<Rightarrow> toLocaleDateString h None
      | Some t \<Rightarrow>
          toLocaleDateString h
            (TimeClip (real_of_int (t + getTimezoneOffset h t * 60000))))"

subsection \<open>A host in the UTC time zone\<close>

text \<open>
  A concrete engine for the examples: its clock is UTC, it reads
  \<open>YYYY-MM-DDTHH:mm:ssZ\<close> besides the date-only forms and no other string, and it
  prints a date as the short English month and the day of the month.
\<close>

definition parseUtcDateTime :: "string \<Rightarrow> timeval" where
  "parseUtcDateTime s =
     (if length s = 20 then
        (case parseDateOnly (take 10 s) of
           None \<Rightarrow> None
         | Some t \<Rightarrow>
             (case drop 10 s of
                [cT, a1, a2, c1, b1, b2, c2, e1, e2, cZ] \<Rightarrow>
                  (if cT = CHR ''T'' \<and> c1 = CHR '':'' \<and> c2 = CHR '':'' \<and> cZ = CHR ''Z'' then
                     (case digitsVal 0 [a1, a2] of
                        None \<Rightarrow> None
                      | Some hh \<Rightarrow>
                          (case digitsVal 0 [b1, b2] of
                             None \<Rightarrow> None
                           | Some mm \<Rightarrow>
                               (case digitsVal 0 [e1, e2] of
                                  None \<Rightarrow> None
                                | Some ss \<Rightarrow>
                                    if hh < 24 \<and> mm < 60 \<and> ss < 60
                                    then Some (t + hh * 3600000 + mm * 60000 + ss * 1000)
                                    else None)))
                   else None)
              | _ \<Rightarrow> None))
      else None)"

definition monthName :: "int \<Rightarrow> string" where
  "monthName m =
     (if m = 0 then ''Jan'' else if m = 1 then ''Feb'' else if m = 2 then ''Mar''
      else if m = 3 then ''Apr'' else if m = 4 then ''May'' else if m = 5 then ''Jun''
      else if m = 6 then ''Jul'' else if m = 7 then ''Aug'' else if m = 8 then ''Sep''
      else if m = 9 then ''Oct'' else if m = 10 then ''Nov'' else ''Dec'')"

definition shortDate :: "timeval \<Rightarrow> string" where
  "shortDate date =
     (case date of
        None \<Rightarrow> ''Invalid Date''
      | Some t \<Rightarrow>
          monthName (MonthFromTime t) @ '' ''
            @ (if DateFromTime t < 10 then [digitChar (DateFromTime t)]
               else pad2 (DateFromTime t)))"

definition utcHost :: host where
  "utcHost =
     \<lparr>hostParse = parseUtcDateTime, getTimezoneOffset = (\<lambda>t. 0),
      toLocaleDateString = shortDate\<rparr>"

section \<open>Double-precision numbers\<close>

text \<open>
  The Number type of ECMA-262 section 6.1.6.1: the IEEE 754 binary64 values. A finite
  double is \<open>m * 2 ^ e\<close> with an integer \<open>m\<close> of at most 53 bits and
  \<open>- 1074 \<le> e \<le> 971\<close>; the model holds its value as a real and identifies the
  two zeros.
\<close>

datatype jsnumber = Finite real | PosInfinity | NegInfinity | NaN

definition pow2 :: "int \<Rightarrow> real" where
  "pow2 e = (if 0 \<le> e then 2 ^ nat e else 1 / 2 ^ nat (- e))"

text \<open>
  The exponent \<open>e\<close> of the doubles next to a value \<open>y \<ge> 0\<close>: the one with
  \<open>2 ^ 52 \<le> y / 2 ^ e < 2 ^ 53\<close>, found by halving or by doubling \<open>y\<close>, but
  not less than \<open>- 1074\<close>, the exponent of the subnormal numbers.
\<close>

function scaleDown :: "real \<Rightarrow> int \<Rightarrow> int" where
  "scaleDown y e = (if 2 ^ 53 \<le> y then scaleDown (y / 2) (e + 1) else e)"
  by pat_completeness auto
termination
proof (relation "measure (\<lambda>(y, e). nat \<lceil>y\<rceil>)")
  show "wf (measure (\<lambda>(y, e). nat \<lceil>y\<rceil>))"
    by simp
next
  fix y :: real and e :: int
  assume a: "2 ^ 53 \<le> y"
  have "y / 2 \<le> y - 1"
    using a by simp
  then have "\<lceil>y / 2\<rceil> \<le> \<lceil>y - 1\<rceil>"
    by (rule ceiling_mono)
  then have "\<lceil>y / 2\<rceil> \<le> \<lceil>y\<rceil> - 1"
    by simp
  moreover have "0 < \<lceil>y\<rceil>"
    using a by (simp add: less_ceiling_iff)
  ultimately show "((y / 2, e + 1), (y, e)) \<in> measure (\<lambda>(y, e). nat \<lceil>y\<rceil>)"
    by simp
qed

function scaleUp :: "real \<Rightarrow> int \<Rightarrow> int" where
  "scaleUp y e = (if y < 2 ^ 52 \<and> - 1074 < e then scaleUp (y * 2) (e - 1) else e)"
  by pat_completeness auto
termination
  by (relation "measure (\<lambda>(y, e). nat (e + 1074))") simp_all

declare scaleDown.simps [simp del] scaleUp.simps [simp del]

definition exponent :: "real \<Rightarrow> int" where
  "exponent y = (if 2 ^ 53 \<le> y then scaleDown y 0 else scaleUp y 0)"

text \<open>The nearest integer, the even one of two that are equally near.\<close>

definition roundHalfEven :: "real \<Rightarrow> int" where
  "roundHalfEven y =
     (let f = \<lfloor>y\<rfloor>; d = y - of_int f
      in if d < 1 / 2 then f else if 1 / 2 < d then f + 1 else if even f then f else f + 1)"

text \<open>
  The double nearest to a real, ties to even (roundTiesToEven, the rounding of every
  Number operation); a result of \<open>2 ^ 1024\<close> or more in magnitude is an infinity.
\<close>

definition roundDouble :: "real \<Rightarrow> jsnumber" where
  "roundDouble x =
     (let e = exponent \<bar>x\<bar>;
          y = of_int (roundHalfEven (\<bar>x\<bar> / pow2 e)) * pow2 e
      in if 2 ^ 1024 \<le> y then (if x < 0 then NegInfinity else PosInfinity)
         else Finite (if x < 0 then - y else y))"

text \<open>Number::add, the \<open>+\<close> of \<open>totalReach += reach\<close>.\<close>

fun jsAdd :: "jsnumber \<Rightarrow> jsnumber \<Rightarrow> jsnumber" where
  "jsAdd (Finite a) (Finite b) = roundDouble (a + b)"
| "jsAdd NaN b = NaN"
| "jsAdd a NaN = NaN"
| "jsAdd PosInfinity NegInfinity = NaN"
| "jsAdd NegInfinity PosInfinity = NaN"
| "jsAdd PosInfinity b = PosInfinity"
| "jsAdd NegInfinity b = NegInfinity"
| "jsAdd (Finite a) b = b"

text \<open>ToBoolean of a number: zero and NaN are falsy.\<close>

definition truthyNumber :: "jsnumber \<Rightarrow> bool" where
  "truthyNumber x = (x \<noteq> Finite 0 \<and> x \<noteq> NaN)"

section \<open>Posts and the data set\<close>

text \<open>
  A post is one object for both platforms: \<open>post as InstagramPost\<close> and
  \<open>post as TikTokPost\<close> are casts, so each component reads the fields of its
  platform from the same object and finds \<open>undefined\<close> where the other platform's
  field is missing. An optional metric is a \<open>jsnumber option\<close> (\<open>None\<close> for
  \<open>undefined\<close> and \<open>null\<close>). The sentiment fields tell a missing key from a key
  with no value, as the \<open>in\<close> operator does. The field \<open>hashtags\<close> is read by the
  chart utility only; it holds the tokens of the post that the spec calls its hashtags.
\<close>

datatype 'a field = Absent | Null | Present 'a

text \<open>
  Modelled from the spec: the declaration of \<open>sentimentLabel\<close> in the types module,
  which the spec gives as the enumeration positive, neutral, negative.
\<close>

datatype sentimentLabel = Positive | Neutral | Negative

datatype platform = Instagram | TikTok

text \<open>
  A brand is one of the names of the type \<open>Brand\<close>; the model takes any string, and
  none of the names is a property that every object inherits.
\<close>

type_synonym brand = string

record post =
  timestamp :: jsval
  createTime :: jsval
  reach :: "jsnumber option"
  impressions :: "jsnumber option"
  views :: "jsnumber option"
  sentimentScore :: "real field"
  sentimentLabel :: "sentimentLabel field"
  hashtags :: "string list"

type_synonym brandPosts = "brand \<Rightarrow> post list option"

text \<open>\<open>posts[brand] || []\<close>\<close>

definition postsOf :: "brandPosts \<Rightarrow> brand \<Rightarrow> post list" where
  "postsOf posts b = (case posts b of None \<Rightarrow> [] | Some ps \<Rightarrow> ps)"

text \<open>
  \<open>a || b\<close> on an optional number \<open>a\<close>: \<open>undefined\<close>, \<open>0\<close> and NaN are
  falsy.
\<close>

fun orElse :: "jsnumber option \<Rightarrow> jsnumber \<Rightarrow> jsnumber" where
  "orElse None b = b"
| "orElse (Some x) b = (if truthyNumber x then x else b)"

section \<open>Total reach by brand (ReachSection)\<close>

text \<open>
  The body of the inner \<open>forEach\<close>: \<open>reach || impressions || 0\<close> on Instagram,
  \<open>views || 0\<close> on any other platform.
\<close>

definition postReach :: "platform \<Rightarrow> post \<Rightarrow> jsnumber" where
  "postReach pf p =
     (if pf = Instagram then orElse (reach p) (orElse (impressions p) (Finite 0))
      else orElse (views p) (Finite 0))"

text \<open>
  \<open>let totalReach = 0\<close> and the inner \<open>forEach\<close>, which adds the metric of each
  post to the running total in the order of the list.
\<close>

definition brandReach :: "platform \<Rightarrow> post list \<Rightarrow> jsnumber" where
  "brandReach pf brandPosts =
     foldl (\<lambda>totalReach p. jsAdd totalReach (postReach pf p)) (Finite 0) brandPosts"

record reachChart =
  reachLabels :: "brand list"
  reachData :: "jsnumber list"

definition totalReachByBrand :: "platform \<Rightarrow> brand list \<Rightarrow> brandPosts \<Rightarrow> reachChart" where
  "totalReachByBrand pf selectedBrands posts =
     \<lparr>reachLabels = selectedBrands,
      reachData = map (\<lambda>b. brandReach pf (postsOf posts b)) selectedBrands\<rparr>"

section \<open>Sentiment analysis (SentimentAnalysis)\<close>

text \<open>\<open>hasData\<close>: the selected brands have more than zero posts in total.\<close>

definition hasData :: "brand list \<Rightarrow> brandPosts \<Rightarrow> bool" where
  "hasData selectedBrands posts =
     (foldl (\<lambda>totalPosts b. totalPosts + length (postsOf posts b)) 0 selectedBrands > 0)"

text \<open>\<open>'key' in post\<close>\<close>

fun inObject :: "'a field \<Rightarrow> bool" where
  "inObject Absent = False"
| "inObject Null = True"
| "inObject (Present v) = True"

definition checkAndFixTikTokData :: "platform \<Rightarrow> brand list \<Rightarrow> brandPosts \<Rightarrow> bool" where
  "checkAndFixTikTokData pf selectedBrands posts =
     (if pf = TikTok then
        (let hasPosts = list_ex (\<lambda>b. length (postsOf posts b) > 0) selectedBrands;
             hasSentiment =
               list_ex (\<lambda>b. length (postsOf posts b) > 0 \<and>
                   list_ex (\<lambda>p. inObject (sentimentScore p) \<or> inObject (sentimentLabel p))
                     (postsOf posts b)) selectedBrands
         in hasPosts \<and> \<not> hasSentiment)
      else False)"

subsection \<open>The sentiment distribution\<close>

record counts =
  positiveCount :: nat
  neutralCount :: nat
  negativeCount :: nat

definition countPost :: "counts \<Rightarrow> post \<Rightarrow> counts" where
  "countPost c p =
     (case sentimentScore p of
        Present score \<Rightarrow>
          (if score > 0 then c\<lparr>positiveCount := positiveCount c + 1\<rparr>
           else if score < 0 then c\<lparr>negativeCount := negativeCount c + 1\<rparr>
           else c\<lparr>neutralCount := neutralCount c + 1\<rparr>)
      | _ \<Rightarrow>
          (case sentimentLabel p of
             Present l \<Rightarrow>
               (if l = Positive then c\<lparr>positiveCount := positiveCount c + 1\<rparr>
                else if l = Negative then c\<lparr>negativeCount := negativeCount c + 1\<rparr>
                else c\<lparr>neutralCount := neutralCount c + 1\<rparr>)
           | _ \<Rightarrow> c))"

definition brandCounts :: "post list \<Rightarrow> counts" where
  "brandCounts brandPosts =
     foldl countPost \<lparr>positiveCount = 0, neutralCount = 0, negativeCount = 0\<rparr> brandPosts"

record distribution =
  brandName :: brand
  distData :: "nat list"

definition brandDistribution :: "brandPosts \<Rightarrow> brand \<Rightarrow> distribution" where
  "brandDistribution posts b =
     (let c = brandCounts (postsOf posts b)
      in \<lparr>brandName = b, distData = [positiveCount c, neutralCount c, negativeCount c]\<rparr>)"

definition sentimentDistributionData :: "brand list \<Rightarrow> brandPosts \<Rightarrow> distribution list" where
  "sentimentDistributionData selectedBrands posts =
     (if \<not> hasData selectedBrands posts then []
      else filter (\<lambda>e. list_ex (\<lambda>d. d > 0) (distData e))
             (map (brandDistribution posts) selectedBrands))"

subsection \<open>The average sentiment over time\<close>

type_synonym daily = "string \<Rightarrow> (brand \<Rightarrow> real list option) option"

text \<open>
  The state of the two nested \<open>forEach\<close> loops: the record of scores by date and brand,
  and the set of dates, which keeps its keys in the order they were first added.
\<close>

record acc =
  dailyBrandSentiments :: daily
  allDates :: "string list"

definition emptyAcc :: acc where
  "emptyAcc = \<lparr>dailyBrandSentiments = (\<lambda>k. None), allDates = []\<rparr>"

definition setAdd :: "string \<Rightarrow> string list \<Rightarrow> string list" where
  "setAdd k ks = (if k \<in> set ks then ks else ks @ [k])"

definition pushScore :: "daily \<Rightarrow> string \<Rightarrow> brand \<Rightarrow> real \<Rightarrow> daily" where
  "pushScore d dateKey b score =
     (let byBrand = (case d dateKey of None \<Rightarrow> (\<lambda>k. None) | Some m \<Rightarrow> m);
          scores = (case byBrand b of None \<Rightarrow> [] | Some xs \<Rightarrow> xs)
      in d(dateKey \<mapsto> byBrand(b \<mapsto> scores @ [score])))"

definition postTimestamp :: "platform \<Rightarrow> post \<Rightarrow> jsval" where
  "postTimestamp pf p = (if pf = Instagram then timestamp p else createTime p)"

definition addPost :: "host \<Rightarrow> platform \<Rightarrow> brand \<Rightarrow> acc \<Rightarrow> post \<Rightarrow> jserror + acc" where
  "addPost h pf b st p =
     (let ts = postTimestamp pf p in
      case sentimentScore p of
        Present score \<Rightarrow>
          (if truthy ts then
             (case formatDateForGrouping h ts of
                Inl e \<Rightarrow> Inl e
              | Inr dateKey \<Rightarrow>
                  if dateKey = [] then Inr st
                  else Inr \<lparr>dailyBrandSentiments =
                              pushScore (dailyBrandSentiments st) dateKey b score,
                            allDates = setAdd dateKey (allDates st)\<rparr>)
           else Inr st)
      | _ \<Rightarrow> Inr st)"

fun forEachPost :: "host \<Rightarrow> platform \<Rightarrow> brand \<Rightarrow> acc \<Rightarrow> post list \<Rightarrow> jserror + acc" where
  "forEachPost h pf b st [] = Inr st"
| "forEachPost h pf b st (p # ps) =
     (case addPost h pf b st p of
        Inl e \<Rightarrow> Inl e
      | Inr st' \<Rightarrow> forEachPost h pf b st' ps)"

fun forEachBrand :: "host \<Rightarrow> platform \<Rightarrow> brandPosts \<Rightarrow> acc \<Rightarrow> brand list \<Rightarrow> jserror + acc" where
  "forEachBrand h pf posts st [] = Inr st"
| "forEachBrand h pf posts st (b # bs) =
     (case forEachPost h pf b st (postsOf posts b) of
        Inl e \<Rightarrow> Inl e
      | Inr st' \<Rightarrow> forEachBrand h pf posts st' bs)"

text \<open>
  \<open>Array.prototype.sort\<close> with the comparator
  \<open>(a, b) => new Date(a).getTime() - new Date(b).getTime()\<close>. A comparator result that
  is NaN counts as 0. The sort is stable; it is modelled as an insertion sort.
\<close>

definition compareDates :: "host \<Rightarrow> string \<Rightarrow> string \<Rightarrow> int" where
  "compareDates h a b =
     (case newDate h (Str a) of
        None \<Rightarrow> 0
      | Some ta \<Rightarrow> (case newDate h (Str b) of None \<Rightarrow> 0 | Some tb \<Rightarrow> ta - tb))"

fun insertBy :: "('a \<Rightarrow> 'a \<Rightarrow> int) \<Rightarrow> 'a \<Rightarrow> 'a list \<Rightarrow> 'a list" where
  "insertBy c x [] = [x]"
| "insertBy c x (y # ys) = (if c x y \<le> 0 then x # y # ys else y # insertBy c x ys)"

definition sortBy :: "('a \<Rightarrow> 'a \<Rightarrow> int) \<Rightarrow> 'a list \<Rightarrow> 'a list" where
  "sortBy c xs = foldr (insertBy c) xs []"

text \<open>
  \<open>scores && scores.length > 0 ? scores.reduce((a, b) => a + b, 0) / scores.length : null\<close>
  for \<open>scores = dailyBrandSentiments[date]?.[brand]\<close>; \<open>None\<close> is \<open>null\<close>.
\<close>

definition dayMean :: "daily \<Rightarrow> brand \<Rightarrow> string \<Rightarrow> real option" where
  "dayMean d b date =
     (case d date of
        None \<Rightarrow> None
      | Some byBrand \<Rightarrow>
          (case byBrand b of
             None \<Rightarrow> None
           | Some scores \<Rightarrow>
               if length scores > 0
               then Some (foldl (+) 0 scores / real (length scores))
               else None))"

text \<open>\<open>s.replace(pat, rep)\<close> with a string pattern: the first occurrence only.\<close>

fun replaceFirst :: "string \<Rightarrow> string \<Rightarrow> string \<Rightarrow> string" where
  "replaceFirst pat rep [] = (if pat = [] then rep else [])"
| "replaceFirst pat rep (c # cs) =
     (if take (length pat) (c # cs) = pat then rep @ drop (length pat) (c # cs)
      else c # replaceFirst pat rep cs)"

definition vibrantColors :: "string list" where
  "vibrantColors =
     [''rgba(219, 68, 55, 0.8)'', ''rgba(244, 180, 0, 0.8)'', ''rgba(15, 157, 88, 0.8)'',
      ''rgba(171, 71, 188, 0.8)'', ''rgba(255, 112, 67, 0.8)'', ''rgba(3, 169, 244, 0.8)'',
      ''rgba(0, 188, 212, 0.8)'', ''rgba(139, 195, 74, 0.8)'', ''rgba(255, 193, 7, 0.8)'',
      ''rgba(121, 85, 72, 0.8)'', ''rgba(96, 125, 139, 0.8)'']"

definition NORDSTROM_BLUE :: string where
  "NORDSTROM_BLUE = ''#004170''"

definition NORDSTROM_BLUE_FILL :: string where
  "NORDSTROM_BLUE_FILL = ''rgba(0, 65, 112, 0.1)''"

definition nordstromBrandString :: brand where
  "nordstromBrandString = ''Nordstrom''"

text \<open>
  A data set of the line chart. The fields that are the same constants for every brand
  (\<open>fill\<close>, \<open>tension\<close>, \<open>pointRadius\<close>, \<open>pointHoverRadius\<close>) are left out.
\<close>

record dataset =
  label :: string
  seriesData :: "real option list"
  borderColor :: string
  backgroundColor :: string

record chartData =
  labels :: "string list"
  datasets :: "dataset list"

definition nordstromDataset :: "daily \<Rightarrow> string list \<Rightarrow> dataset" where
  "nordstromDataset d sortedDates =
     \<lparr>label = ''Nordstrom'',
      seriesData = map (dayMean d nordstromBrandString) sortedDates,
      borderColor = NORDSTROM_BLUE,
      backgroundColor = NORDSTROM_BLUE_FILL\<rparr>"

definition brandDataset :: "daily \<Rightarrow> string list \<Rightarrow> nat \<Rightarrow> brand \<Rightarrow> dataset" where
  "brandDataset d sortedDates colorIdx b =
     (let color = vibrantColors ! (colorIdx mod length vibrantColors)
      in \<lparr>label = b,
          seriesData = map (dayMean d b) sortedDates,
          borderColor = replaceFirst ''0.8'' ''1'' color,
          backgroundColor = replaceFirst ''0.8'' ''0.1'' color\<rparr>)"

text \<open>The second \<open>forEach\<close> over the selected brands, with its counter \<open>colorIdx\<close>.\<close>

fun otherDatasets :: "daily \<Rightarrow> string list \<Rightarrow> nat \<Rightarrow> brand list \<Rightarrow> dataset list" where
  "otherDatasets d sortedDates colorIdx [] = []"
| "otherDatasets d sortedDates colorIdx (b # bs) =
     (if b = nordstromBrandString then otherDatasets d sortedDates colorIdx bs
      else brandDataset d sortedDates colorIdx b
             # otherDatasets d sortedDates (colorIdx + 1) bs)"

definition sortedDatesOf :: "host \<Rightarrow> acc \<Rightarrow> string list" where
  "sortedDatesOf h st = sortBy (compareDates h) (allDates st)"

definition composeChart :: "host \<Rightarrow> brand list \<Rightarrow> acc \<Rightarrow> chartData" where
  "composeChart h selectedBrands st =
     (let sortedDates = sortedDatesOf h st;
          chartLabels = map (formatDateForLabel h) sortedDates;
          d = dailyBrandSentiments st
      in \<lparr>labels = chartLabels,
          datasets =
            (if nordstromBrandString \<in> set selectedBrands
             then [nordstromDataset d sortedDates] else [])
            @ otherDatasets d sortedDates 0 selectedBrands\<rparr>)"

definition comparativeAvgSentimentOverTimeData ::
    "host \<Rightarrow> platform \<Rightarrow> brand list \<Rightarrow> brandPosts \<Rightarrow> jserror + chartData" where
  "comparativeAvgSentimentOverTimeData h pf selectedBrands posts =
     (if \<not> hasData selectedBrands posts then Inr \<lparr>labels = [], datasets = []\<rparr>
      else
        (case forEachBrand h pf posts emptyAcc selectedBrands of
           Inl e \<Rightarrow> Inl e
         | Inr st \<Rightarrow> Inr (composeChart h selectedBrands st)))"

subsection \<open>What the component renders\<close>

datatype chartView = Chart | EmptyChartFallback

datatype view =
  NoDataFallback
| TikTokNote
| Charts chartView chartView

definition renderSentiment ::
    "host \<Rightarrow> platform \<Rightarrow> brand list \<Rightarrow> brandPosts \<Rightarrow> jserror + view" where
  "renderSentiment h pf selectedBrands posts =
     (case comparativeAvgSentimentOverTimeData h pf selectedBrands posts of
        Inl e \<Rightarrow> Inl e
      | Inr series \<Rightarrow>
          if \<not> hasData selectedBrands posts \<and> \<not> checkAndFixTikTokData pf selectedBrands posts
          then Inr NoDataFallback
          else if checkAndFixTikTokData pf selectedBrands posts then Inr TikTokNote
          else Inr (Charts
                 (if length (labels series) > 0 then Chart else EmptyChartFallback)
                 (if length (sentimentDistributionData selectedBrands posts) > 0
                  then Chart else EmptyChartFallback)))"

section \<open>Top hashtags (HashtagSection)\<close>

text \<open>
  The social data of the context: the posts of each brand on each platform.
  \<open>data.instagram[brand]?.posts || []\<close> is \<open>postsOf (instagram data) brand\<close>: a brand
  without an entry and an entry without posts both give the empty list.
\<close>

record socialData =
  instagram :: brandPosts
  tiktok :: brandPosts

definition platformPosts :: "socialData \<Rightarrow> platform \<Rightarrow> brandPosts" where
  "platformPosts sd pf = (if pf = Instagram then instagram sd else tiktok sd)"

definition hashtagHasData :: "socialData option \<Rightarrow> brand list \<Rightarrow> bool" where
  "hashtagHasData contextSocialData selectedBrands =
     (case contextSocialData of
        None \<Rightarrow> False
      | Some sd \<Rightarrow>
          list_ex (\<lambda>b. length (postsOf (instagram sd) b) > 0
                      \<or> length (postsOf (tiktok sd) b) > 0) selectedBrands)"

subsection \<open>The chart utility, from the spec\<close>

text \<open>
  Modelled from the spec: \<open>generateUnifiedHashtagChart\<close> of the chart utilities, which
  is not among the sources. The spec (4.3, 7) describes it as \<open>topHashtags\<close> with
  \<open>k = 5\<close>: the hashtags of a post are its \<open>#\<close>-prefixed tokens, compared without
  regard to case; occurrences are counted over the posts of all selected brands on the
  platform; the labels are the \<open>k\<close> most frequent hashtags, ties in the order first
  met; each brand's vector gives its own count of each label; without any hashtag the
  labels and the series are both empty; a negative \<open>k\<close> is an invalid argument.
\<close>

datatype argError = InvalidArgument

text \<open>
  Modelled from the spec: the hashtags of a post, its \<open>#\<close>-prefixed tokens in lower
  case (the spec compares hashtags without regard to case).
\<close>

definition lowerChar :: "char \<Rightarrow> char" where
  "lowerChar c =
     (let n = (of_char c :: nat) in if 65 \<le> n \<and> n \<le> 90 then char_of (n + 32) else c)"

definition extractHashtags :: "post \<Rightarrow> string list" where
  "extractHashtags p =
     map (map lowerChar) (filter (\<lambda>t. t \<noteq> [] \<and> hd t = CHR ''#'') (hashtags p))"

text \<open>
  Modelled from the spec: the hashtag occurrences of one brand, and those of all
  selected brands pooled, in the order of the brands and their posts.
\<close>

definition brandTags :: "brandPosts \<Rightarrow> brand \<Rightarrow> string list" where
  "brandTags posts b = concat (map extractHashtags (postsOf posts b))"

definition pooledTags :: "brandPosts \<Rightarrow> brand list \<Rightarrow> string list" where
  "pooledTags posts selectedBrands = concat (map (brandTags posts) selectedBrands)"

text \<open>Modelled from the spec: the distinct hashtags in the order first met.\<close>

fun firstSeen :: "'a list \<Rightarrow> 'a list" where
  "firstSeen [] = []"
| "firstSeen (x # xs) = x # filter (\<lambda>y. y \<noteq> x) (firstSeen xs)"

record hashtagChart =
  hashtagLabels :: "string list"
  hashtagSeries :: "(brand \<times> nat list) list"

text \<open>
  Modelled from the spec: \<open>topHashtags\<close>. The stable sort by falling count keeps
  hashtags of equal count in the order first met.
\<close>

definition topHashtags ::
    "socialData \<Rightarrow> brand list \<Rightarrow> platform \<Rightarrow> int \<Rightarrow> argError + hashtagChart" where
  "topHashtags sd selectedBrands pf k =
     (if k < 0 then Inl InvalidArgument
      else
        (let posts = platformPosts sd pf;
             pooled = pooledTags posts selectedBrands;
             ranked = sortBy (\<lambda>a b. int (count_list pooled b) - int (count_list pooled a))
                        (firstSeen pooled);
             top = take (nat k) ranked
         in if pooled = [] then Inr \<lparr>hashtagLabels = [], hashtagSeries = []\<rparr>
            else Inr \<lparr>hashtagLabels = top,
                      hashtagSeries =
                        map (\<lambda>b. (b, map (count_list (brandTags posts b)) top))
                          selectedBrands\<rparr>))"

text \<open>
  Modelled from the spec: \<open>generateUnifiedHashtagChart\<close>, called without a \<open>k\<close>, takes
  the default 5. Its first two arguments are the two fields of the social data.
\<close>

definition generateUnifiedHashtagChart ::
    "socialData \<Rightarrow> brand list \<Rightarrow> platform \<Rightarrow> argError + hashtagChart" where
  "generateUnifiedHashtagChart sd selectedBrands pf = topHashtags sd selectedBrands pf 5"

subsection \<open>The component\<close>

definition unifiedChartData ::
    "socialData option \<Rightarrow> brand list \<Rightarrow> platform \<Rightarrow> argError + hashtagChart" where
  "unifiedChartData contextSocialData selectedBrands pf =
     (case contextSocialData of
        None \<Rightarrow> Inr \<lparr>hashtagLabels = [], hashtagSeries = []\<rparr>
      | Some sd \<Rightarrow>
          if \<not> hashtagHasData contextSocialData selectedBrands
          then Inr \<lparr>hashtagLabels = [], hashtagSeries = []\<rparr>
          else generateUnifiedHashtagChart sd selectedBrands pf)"

definition renderHashtags ::
    "socialData option \<Rightarrow> brand list \<Rightarrow> platform \<Rightarrow> argError + chartView" where
  "renderHashtags contextSocialData selectedBrands pf =
     (case unifiedChartData contextSocialData selectedBrands pf of
        Inl e \<Rightarrow> Inl e
      | Inr c \<Rightarrow>
          if \<not> hashtagHasData contextSocialData selectedBrands \<or> length (hashtagLabels c) = 0
          then Inr EmptyChartFallback
          else Inr Chart)"

section \<open>Notions used in the properties\<close>

text \<open>
  The classification in the words of the spec: a numeric score decides by its sign;
  without a numeric score the label decides; a post with neither has no sentiment.
\<close>

definition scoredPositive :: "post \<Rightarrow> bool" where
  "scoredPositive p =
     (case sentimentScore p of
        Present s \<Rightarrow> s > 0
      | _ \<Rightarrow> sentimentLabel p = Present Positive)"

definition scoredNegative :: "post \<Rightarrow> bool" where
  "scoredNegative p =
     (case sentimentScore p of
        Present s \<Rightarrow> s < 0
      | _ \<Rightarrow> sentimentLabel p = Present Negative)"

definition scoredNeutral :: "post \<Rightarrow> bool" where
  "scoredNeutral p =
     (case sentimentScore p of
        Present s \<Rightarrow> s = 0
      | _ \<Rightarrow> sentimentLabel p = Present Neutral)"

definition hasSentimentSignal :: "post \<Rightarrow> bool" where
  "hasSentimentSignal p =
     (case sentimentScore p of
        Present s \<Rightarrow> True
      | _ \<Rightarrow> (case sentimentLabel p of Present l \<Rightarrow> True | _ \<Rightarrow> False))"

text \<open>The date that \<open>formatDateForGrouping\<close> constructs from its argument.\<close>

definition groupingDate :: "host \<Rightarrow> jsval \<Rightarrow> timeval" where
  "groupingDate h dateInput =
     (case dateInput of
        Num x \<Rightarrow> if x < 1000000000000 then TimeClip (x * 1000) else TimeClip x
      | _ \<Rightarrow> newDate h dateInput)"



text \<open>
  A post qualifies for the time series when its sentiment score is a number, its
  timestamp is truthy and its grouping key is not empty; \<open>postKey\<close> is then its key
  and its score.
\<close>

definition postKey :: "host \<Rightarrow> platform \<Rightarrow> post \<Rightarrow> (string \<times> real) option" where
  "postKey h pf p =
     (case sentimentScore p of
        Present score \<Rightarrow>
          (if truthy (postTimestamp pf p) then
             (case formatDateForGrouping h (postTimestamp pf p) of
                Inl e \<Rightarrow> None
              | Inr k \<Rightarrow> if k = [] then None else Some (k, score))
           else None)
      | _ \<Rightarrow> None)"

text \<open>The keys of the qualifying posts of a list, and the scores recorded under one key.\<close>

definition postKeys :: "host \<Rightarrow> platform \<Rightarrow> post list \<Rightarrow> string list" where
  "postKeys h pf ps = map fst (List.map_filter (postKey h pf) ps)"

definition dayScores :: "host \<Rightarrow> platform \<Rightarrow> string \<Rightarrow> post list \<Rightarrow> real list" where
  "dayScores h pf k ps = map snd (filter (\<lambda>e. fst e = k) (List.map_filter (postKey h pf) ps))"

definition lookupScores :: "daily \<Rightarrow> string \<Rightarrow> brand \<Rightarrow> real list" where
  "lookupScores d k b =
     (case d k of
        None \<Rightarrow> []
      | Some byBrand \<Rightarrow> (case byBrand b of None \<Rightarrow> [] | Some xs \<Rightarrow> xs))"

definition meanOf :: "real list \<Rightarrow> real option" where
  "meanOf xs = (if xs = [] then None else Some (sum_list xs / real (length xs)))"

text \<open>The state after one post, and after the loops, when nothing is raised.\<close>

definition stepPost :: "host \<Rightarrow> platform \<Rightarrow> brand \<Rightarrow> acc \<Rightarrow> post \<Rightarrow> acc" where
  "stepPost h pf b st p =
     (case postKey h pf p of
        None \<Rightarrow> st
      | Some (k, score) \<Rightarrow>
          \<lparr>dailyBrandSentiments = pushScore (dailyBrandSentiments st) k b score,
           allDates = setAdd k (allDates st)\<rparr>)"

definition loopState :: "host \<Rightarrow> platform \<Rightarrow> brandPosts \<Rightarrow> acc \<Rightarrow> brand list \<Rightarrow> acc" where
  "loopState h pf posts st bs =
     foldl (\<lambda>s b. foldl (stepPost h pf b) s (postsOf posts b)) st bs"

text \<open>The keys of the qualifying posts of all selected brands.\<close>

definition qualifyingKeys :: "host \<Rightarrow> platform \<Rightarrow> brand list \<Rightarrow> brandPosts \<Rightarrow> string list" where
  "qualifyingKeys h pf selectedBrands posts =
     concat (map (\<lambda>b. postKeys h pf (postsOf posts b)) selectedBrands)"

text \<open>The time value that a date key denotes.\<close>

definition dateValue :: "host \<Rightarrow> string \<Rightarrow> int" where
  "dateValue h k = (case newDate h (Str k) of None \<Rightarrow> 0 | Some t \<Rightarrow> t)"

definition validKey :: "string \<Rightarrow> bool" where
  "validKey k = (\<exists>t. \<bar>t\<bar> \<le> maxTime \<and> k = isoDate t)"

text \<open>The sorted date keys behind the label axis.\<close>

definition chartDates :: "host \<Rightarrow> platform \<Rightarrow> brand list \<Rightarrow> brandPosts \<Rightarrow> string list" where
  "chartDates h pf selectedBrands posts =
     sortedDatesOf h (loopState h pf posts emptyAcc selectedBrands)"

text \<open>
  The label axis in the words of the spec: the valid day keys of all posts of the
  selected brands, each once, sorted by the comparator.
\<close>

definition postDayKeys :: "host \<Rightarrow> platform \<Rightarrow> post list \<Rightarrow> string list" where
  "postDayKeys h pf ps =
     concat (map (\<lambda>p. case formatDateForGrouping h (postTimestamp pf p) of
                         Inl e \<Rightarrow> []
                       | Inr k \<Rightarrow> if k = [] then [] else [k]) ps)"

definition validDayKeys :: "host \<Rightarrow> platform \<Rightarrow> brand list \<Rightarrow> brandPosts \<Rightarrow> string list" where
  "validDayKeys h pf selectedBrands posts =
     sortBy (compareDates h)
       (firstSeen (concat (map (\<lambda>b. postDayKeys h pf (postsOf posts b)) selectedBrands)))"

text \<open>Whether the rendered component shows the line chart of the time series.\<close>

fun showsTimeSeries :: "view \<Rightarrow> bool" where
  "showsTimeSeries (Charts Chart distributionView) = True"
| "showsTimeSeries v = False"

text \<open>
  The running total of the inner loop of the reach aggregator after the posts
  \<open>ps\<close>, when it stood at \<open>start\<close> before them.
\<close>

definition reachAfter :: "platform \<Rightarrow> jsnumber \<Rightarrow> post list \<Rightarrow> jsnumber" where
  "reachAfter pf start ps = foldl (\<lambda>totalReach p. jsAdd totalReach (postReach pf p)) start ps"

text \<open>The value of a finite number.\<close>

fun amount :: "jsnumber \<Rightarrow> real" where
  "amount (Finite r) = r"
| "amount x = 0"

text \<open>A metric as the data model of the spec has it: a non-negative integer.\<close>

definition wholeNumber :: "jsnumber \<Rightarrow> bool" where
  "wholeNumber x = (case x of Finite r \<Rightarrow> 0 \<le> r \<and> r = of_int \<lfloor>r\<rfloor> | _ \<Rightarrow> False)"

text \<open>
  The metrics of the posts are non-negative integers and their sum is less than
  \<open>2 ^ 53\<close>: every running total is an integer that a double holds exactly.
\<close>

definition exactTotal :: "platform \<Rightarrow> post list \<Rightarrow> bool" where
  "exactTotal pf ps =
     ((\<forall>q\<in>set ps. wholeNumber (postReach pf q))
      \<and> sum_list (map (\<lambda>q. amount (postReach pf q)) ps) < 2 ^ 53)"

section \<open>Example data\<close>

definition instagramPost :: "jsval \<Rightarrow> jsnumber option \<Rightarrow> real field \<Rightarrow> sentimentLabel field \<Rightarrow> post" where
  "instagramPost ts r score l =
     \<lparr>timestamp = ts, createTime = Undefined, reach = r, impressions = None, views = None,
      sentimentScore = score, sentimentLabel = l, hashtags = []\<rparr>"

definition tiktokPost :: "jsval \<Rightarrow> jsnumber option \<Rightarrow> real field \<Rightarrow> sentimentLabel field \<Rightarrow> post" where
  "tiktokPost ts v score l =
     \<lparr>timestamp = Undefined, createTime = ts, reach = None, impressions = None, views = v,
      sentimentScore = score, sentimentLabel = l, hashtags = []\<rparr>"

definition taggedPost :: "string list \<Rightarrow> post" where
  "taggedPost tags =
     \<lparr>timestamp = Undefined, createTime = Undefined, reach = None, impressions = None,
      views = None, sentimentScore = Absent, sentimentLabel = Absent, hashtags = tags\<rparr>"

text \<open>
  Brand A has two posts on 2024-01-01 with scores 0.5 and -0.5, one labelled post
  without a score and one post without any sentiment; brand B has no posts.
\<close>

definition postsA :: "post list" where
  "postsA =
     [instagramPost (Num 1704067200) (Some (Finite 7)) (Present (1 / 2)) Absent,
      instagramPost (Str ''2024-01-01'') (Some (Finite 7)) (Present (- 1 / 2)) Absent,
      instagramPost (Num 1704153600) (Some (Finite 7)) Null (Present Neutral),
      instagramPost (Num 1704153600) (Some (Finite 7)) Absent Absent]"

definition exampleInstagram :: brandPosts where
  "exampleInstagram = [''A'' \<mapsto> postsA, ''B'' \<mapsto> []]"

text \<open>
  Three brands on Instagram. A has the posts above. Nordstrom has a post on 2024-01-02,
  one whose timestamp does not parse and one with the timestamp 0. B has a post on
  2023-12-31, given in milliseconds.
\<close>

definition exampleSeries :: brandPosts where
  "exampleSeries =
     [''A'' \<mapsto> postsA,
      ''Nordstrom'' \<mapsto>
         [instagramPost (Str ''2024-01-02'') None (Present 1) Absent,
          instagramPost (Str ''not a date'') (Some (Finite 5)) (Present 1) Absent,
          instagramPost (Num 0) None (Present 1) Absent],
      ''B'' \<mapsto> [instagramPost (Num 1703980800000) None (Present (- 1)) Absent]]"

definition exampleBrands :: "brand list" where
  "exampleBrands = [''A'', ''Nordstrom'', ''B'']"

definition datedPost :: post where
  "datedPost = instagramPost (Str ''2024-01-02'') None (Present 1) Absent"


definition epochPost :: post where
  "epochPost = instagramPost (Num 0) None (Present 1) Absent"

definition exampleSocial :: socialData where
  "exampleSocial =
     \<lparr>instagram = [''A'' \<mapsto> [taggedPost [''#sale'', ''#Sale'', ''#new'', ''plain'']],
                    ''B'' \<mapsto> [taggedPost [''#SALE'']]],
      tiktok = [''A'' \<mapsto> [taggedPost [''plain'']]]\<rparr>"

text \<open>
  The double nearest to one tenth, which is the value of the literal \<open>0.1\<close>, and
  ten posts with that reach; two posts with the reach \<open>2 ^ 53\<close> and 1.
\<close>

definition tenth :: real where
  "tenth = 3602879701896397 / 36028797018963968"

definition tenthPost :: post where
  "tenthPost = instagramPost (Num 1704067200) (Some (Finite tenth)) Absent Absent"

definition tenthPosts :: "post list" where
  "tenthPosts = replicate 10 tenthPost"

definition largePosts :: "post list" where
  "largePosts =
     [instagramPost (Num 1704067200) (Some (Finite 9007199254740992)) Absent Absent,
      instagramPost (Num 1704067200) (Some (Finite 1)) Absent Absent]"

section \<open>Properties of double-precision addition\<close>

lemma scaleDown_small: "y < 2 ^ 53 \<Longrightarrow> scaleDown y e = e"
  by (simp add: scaleDown.simps)

lemma scaleDown_exact:
  "2 ^ 52 \<le> y / 2 ^ k \<Longrightarrow> y / 2 ^ k < 2 ^ 53 \<Longrightarrow> scaleDown y e = e + int k"
proof (induction k arbitrary: y e)
  case 0
  then show ?case by (simp add: scaleDown_small)
next
  case (Suc k)
  have pos: "0 \<le> y"
  proof (rule ccontr)
    assume "\<not> 0 \<le> y"
    then have "y / 2 ^ Suc k \<le> 0" by (simp add: divide_le_0_iff)
    with Suc.prems(1) show False by simp
  qed
  have "y / 2 / 2 ^ k \<le> y / 2 / 1"
    using pos by (intro divide_left_mono) simp_all
  then have "2 ^ 53 \<le> y" using Suc.prems(1) by simp
  then have "scaleDown y e = scaleDown (y / 2) (e + 1)"
    by (subst scaleDown.simps) simp
  also have "\<dots> = e + 1 + int k"
    using Suc.prems by (intro Suc.IH) simp_all
  finally show ?case by simp
qed

lemma scaleUp_le: "scaleUp y e \<le> e"
proof (induction y e rule: scaleUp.induct)
  case (1 y e)
  show ?case
  proof (cases "y < 2 ^ 52 \<and> - 1074 < e")
    case True
    then have "scaleUp y e = scaleUp (y * 2) (e - 1)"
      by (subst scaleUp.simps) simp
    with 1 True show ?thesis by simp
  next
    case False
    then have "scaleUp y e = e" by (subst scaleUp.simps) auto
    then show ?thesis by simp
  qed
qed

lemma scaleUp_exact:
  "2 ^ 52 \<le> y * 2 ^ k \<Longrightarrow> y * 2 ^ k < 2 ^ 53 \<Longrightarrow> - 1074 \<le> e - int k
   \<Longrightarrow> scaleUp y e = e - int k"
proof (induction k arbitrary: y e)
  case 0
  then have "scaleUp y e = e" by (subst scaleUp.simps) auto
  then show ?case by simp
next
  case (Suc k)
  have pos: "0 \<le> y"
  proof (rule ccontr)
    assume "\<not> 0 \<le> y"
    then have "y * 2 ^ Suc k \<le> 0" by (simp add: mult_le_0_iff)
    with Suc.prems(1) show False by simp
  qed
  have "y * 2 * 1 \<le> y * 2 * 2 ^ k"
    using pos by (intro mult_left_mono) simp_all
  then have "y * 2 < 2 ^ 53" using Suc.prems(2) by simp
  then have small: "y < 2 ^ 52 \<and> - 1074 < e" using Suc.prems(3) by simp
  then have "scaleUp y e = scaleUp (y * 2) (e - 1)"
    by (subst scaleUp.simps) simp
  also have "\<dots> = e - 1 - int k"
    using Suc.prems by (intro Suc.IH) (simp_all add: algebra_simps)
  finally show ?case by simp
qed

lemma roundHalfEven_of_int: "roundHalfEven (of_int n) = n"
  by (simp add: roundHalfEven_def)

text \<open>An integer of magnitude less than \<open>2 ^ 53\<close> is a double.\<close>

lemma roundDouble_of_int:
  assumes "\<bar>n\<bar> < 2 ^ 53"
  shows "roundDouble (of_int n) = Finite (of_int n)"
proof -
  define e where "e = scaleUp \<bar>real_of_int n\<bar> 0"
  have small: "\<bar>real_of_int n\<bar> < 2 ^ 53"
  proof -
    have "real_of_int \<bar>n\<bar> < real_of_int (2 ^ 53)"
      using assms by (simp only: of_int_less_iff)
    then show ?thesis by simp
  qed
  have ex: "exponent \<bar>real_of_int n\<bar> = e"
    using small by (simp add: exponent_def e_def)
  have e0: "e \<le> 0" by (simp add: e_def scaleUp_le)
  define k where "k = nat (- e)"
  have p: "pow2 e = 1 / 2 ^ k"
    using e0 by (cases "e = 0") (simp_all add: pow2_def k_def)
  have "\<bar>real_of_int n\<bar> / pow2 e = of_int (\<bar>n\<bar> * 2 ^ k)"
    by (simp add: p)
  then have r: "roundHalfEven (\<bar>real_of_int n\<bar> / pow2 e) = \<bar>n\<bar> * 2 ^ k"
    by (simp only: roundHalfEven_of_int)
  have y: "of_int (roundHalfEven (\<bar>real_of_int n\<bar> / pow2 e)) * pow2 e = \<bar>real_of_int n\<bar>"
    unfolding r by (simp add: p)
  have "\<not> 2 ^ 1024 \<le> \<bar>real_of_int n\<bar>" using small by simp
  then show ?thesis
    unfolding roundDouble_def ex Let_def y by simp
qed

text \<open>
  The rounding of a value below \<open>2 ^ 53\<close>, given the exponent \<open>- k\<close> of its
  binade, and of a value from \<open>2 ^ 53\<close> on, given the exponent \<open>k\<close>.
\<close>

lemma roundDouble_scaled:
  assumes "0 \<le> x" and "2 ^ 52 \<le> x * 2 ^ k" and "x * 2 ^ k < 2 ^ 53" and "int k \<le> 1074"
  shows "roundDouble x = Finite (of_int (roundHalfEven (x * 2 ^ k)) / 2 ^ k)"
proof -
  define m where "m = roundHalfEven (x * 2 ^ k)"
  have "x * 1 \<le> x * 2 ^ k" using assms(1) by (intro mult_left_mono) simp_all
  then have small: "\<bar>x\<bar> < 2 ^ 53" using assms(1,3) by simp
  have "scaleUp \<bar>x\<bar> 0 = - int k"
    using scaleUp_exact [of x k 0] assms by simp
  then have e: "exponent \<bar>x\<bar> = - int k"
    using small by (simp add: exponent_def)
  have p: "pow2 (- int k) = 1 / 2 ^ k"
    by (cases "k = 0") (simp_all add: pow2_def)
  have "real_of_int m \<le> x * 2 ^ k + 1"
    unfolding m_def roundHalfEven_def Let_def by simp linarith
  then have m: "real_of_int m \<le> 2 ^ 53 + 1" using assms(3) by simp
  have "real_of_int m / 2 ^ k \<le> (2 ^ 53 + 1) / 2 ^ k"
    using m by (intro divide_right_mono) simp_all
  also have "\<dots> \<le> (2 ^ 53 + 1) / 1"
    by (intro divide_left_mono) simp_all
  finally have "\<not> 2 ^ 1024 \<le> real_of_int m / 2 ^ k" by simp
  then show ?thesis
    using assms(1) unfolding roundDouble_def e p Let_def m_def by simp
qed

lemma roundDouble_halved:
  assumes "0 < k" and "2 ^ 52 \<le> x / 2 ^ k" and "x / 2 ^ k < 2 ^ 53"
  shows "roundDouble x
           = (if 2 ^ 1024 \<le> real_of_int (roundHalfEven (x / 2 ^ k)) * 2 ^ k then PosInfinity
              else Finite (of_int (roundHalfEven (x / 2 ^ k)) * 2 ^ k))"
proof -
  have pos: "0 \<le> x"
  proof (rule ccontr)
    assume "\<not> 0 \<le> x"
    then have "x / 2 ^ k \<le> 0" by (simp add: divide_le_0_iff)
    with assms(2) show False by simp
  qed
  have "(2::real) ^ 1 \<le> 2 ^ k"
    using assms(1) by (intro power_increasing) simp_all
  then have "x / 2 ^ k \<le> x / 2"
    using divide_left_mono [of "2 ^ 1" "2 ^ k" x] pos by simp
  then have "2 ^ 52 \<le> x / 2" using assms(2) by linarith
  then have big: "2 ^ 53 \<le> \<bar>x\<bar>" using pos by simp
  have "scaleDown \<bar>x\<bar> 0 = int k"
    using scaleDown_exact [of x k 0] assms pos by simp
  then have e: "exponent \<bar>x\<bar> = int k"
    using big by (simp add: exponent_def)
  have p: "pow2 (int k) = 2 ^ k"
    by (simp add: pow2_def)
  show ?thesis
    using pos unfolding roundDouble_def e p Let_def by simp
qed

section \<open>Properties of the reach aggregation\<close>

lemma reachAfter_Nil: "reachAfter pf start [] = start"
  by (simp add: reachAfter_def)

lemma reachAfter_Cons:
  "reachAfter pf start (q # ps) = reachAfter pf (jsAdd start (postReach pf q)) ps"
  by (simp add: reachAfter_def)


lemma brandReach_reachAfter: "brandReach pf ps = reachAfter pf (Finite 0) ps"
  by (simp add: brandReach_def reachAfter_def)

lemma wholeNumber_int:
  assumes "wholeNumber x"
  obtains n where "0 \<le> n" and "x = Finite (of_int n)"
proof (cases x)
  case (Finite r)
  with assms have r: "0 \<le> r" "r = of_int \<lfloor>r\<rfloor>"
    by (simp_all add: wholeNumber_def)
  from r(1) have "0 \<le> \<lfloor>r\<rfloor>" by simp
  with r(2) Finite that show ?thesis by metis
qed (use assms in \<open>simp_all add: wholeNumber_def\<close>)

lemma amount_nonneg: "wholeNumber x \<Longrightarrow> 0 \<le> amount x"
  by (cases x) (simp_all add: wholeNumber_def)

lemma amounts_nonneg:
  "\<forall>q\<in>set ps. wholeNumber (postReach pf q)
   \<Longrightarrow> 0 \<le> sum_list (map (\<lambda>q. amount (postReach pf q)) ps)"
  by (induction ps) (simp_all add: amount_nonneg)

text \<open>
  While the running total and the metrics are non-negative integers and the sum stays
  below \<open>2 ^ 53\<close>, no addition rounds.
\<close>

lemma reachAfter_exact:
  assumes "0 \<le> n" and "\<forall>q\<in>set ps. wholeNumber (postReach pf q)"
    and "real_of_int n + sum_list (map (\<lambda>q. amount (postReach pf q)) ps) < 2 ^ 53"
  shows "reachAfter pf (Finite (of_int n)) ps
           = Finite (of_int n + sum_list (map (\<lambda>q. amount (postReach pf q)) ps))"
  using assms
proof (induction ps arbitrary: n)
  case Nil
  show ?case by (simp add: reachAfter_Nil)
next
  case (Cons q ps)
  from Cons.prems(2) have w: "wholeNumber (postReach pf q)"
    and ws: "\<forall>q\<in>set ps. wholeNumber (postReach pf q)"
    by simp_all
  from w obtain k where k: "0 \<le> k" "postReach pf q = Finite (of_int k)"
    by (rule wholeNumber_int)
  have rest: "0 \<le> sum_list (map (\<lambda>q. amount (postReach pf q)) ps)"
    by (rule amounts_nonneg [OF ws])
  have bound: "real_of_int (n + k) + sum_list (map (\<lambda>q. amount (postReach pf q)) ps) < 2 ^ 53"
    using Cons.prems(3) k(2) by simp
  then have "real_of_int (n + k) < real_of_int (2 ^ 53)"
    using rest by simp
  then have "n + k < 2 ^ 53"
    by (simp only: of_int_less_iff)
  then have "\<bar>n + k\<bar> < 2 ^ 53"
    using Cons.prems(1) k(1) by simp
  then have "roundDouble (of_int (n + k)) = Finite (of_int (n + k))"
    by (rule roundDouble_of_int)
  then have step: "jsAdd (Finite (of_int n)) (postReach pf q) = Finite (of_int (n + k))"
    by (simp add: k(2))
  have "reachAfter pf (Finite (of_int n)) (q # ps) = reachAfter pf (Finite (of_int (n + k))) ps"
    by (simp only: reachAfter_Cons step)
  also have "\<dots> = Finite (of_int (n + k) + sum_list (map (\<lambda>q. amount (postReach pf q)) ps))"
    using Cons.prems(1) k(1) ws bound by (intro Cons.IH) simp_all
  also have "\<dots> = Finite (of_int n + sum_list (map (\<lambda>q. amount (postReach pf q)) (q # ps)))"
    by (simp add: k(2))
  finally show ?case .
qed

lemma brandReach_exact:
  assumes "exactTotal pf ps"
  shows "brandReach pf ps = Finite (sum_list (map (\<lambda>q. amount (postReach pf q)) ps))"
  using reachAfter_exact [of 0 ps pf] assms
  by (simp add: brandReach_reachAfter exactTotal_def)

lemma sum_list_const:
  "(\<forall>p\<in>set ps. f p = (r::real)) \<Longrightarrow> sum_list (map f ps) = real (length ps) * r"
  by (induction ps) (simp_all add: algebra_simps)

lemma brandReach_const:
  assumes "\<forall>q\<in>set ps. postReach pf q = Finite r" and "wholeNumber (Finite r)"
    and "real (length ps) * r < 2 ^ 53"
  shows "brandReach pf ps = Finite (real (length ps) * r)"
proof -
  have s: "sum_list (map (\<lambda>q. amount (postReach pf q)) ps) = real (length ps) * r"
    using assms(1) by (intro sum_list_const) simp
  have "exactTotal pf ps"
    using assms by (simp add: exactTotal_def s)
  then show ?thesis
    by (simp add: brandReach_exact s)
qed

lemma postReach_Instagram:
  "postReach Instagram p
     = (case reach p of
          Some r \<Rightarrow>
            if truthyNumber r then r
            else (case impressions p of
                    Some i \<Rightarrow> if truthyNumber i then i else Finite 0
                  | None \<Rightarrow> Finite 0)
        | None \<Rightarrow>
            (case impressions p of
               Some i \<Rightarrow> if truthyNumber i then i else Finite 0
             | None \<Rightarrow> Finite 0))"
  by (simp add: postReach_def split: option.splits)

lemma postReach_TikTok:
  "postReach TikTok p
     = (case views p of Some v \<Rightarrow> if truthyNumber v then v else Finite 0 | None \<Rightarrow> Finite 0)"
  by (simp add: postReach_def split: option.splits)

text \<open>
  C4. For every brand the reach aggregator returns the total that it accumulates post
  by post, in double-precision arithmetic, of the metric of the platform: on Instagram
  the reach, else the impressions, else 0 (a missing, zero or NaN value counts as
  absent, as \<open>||\<close> reads it); on TikTok the views, else 0. A brand with no post list
  or an empty one gets 0. When the metrics are non-negative integers with a sum below
  \<open>2 ^ 53\<close>, the total is their sum, and posts that all have such a metric \<open>r\<close>
  give the number of posts times \<open>r\<close>.
\<close>

theorem totalReachByBrand_sums:
  "reachLabels (totalReachByBrand pf sel posts) = sel
   \<and> reachData (totalReachByBrand pf sel posts)
       = map (\<lambda>b. reachAfter pf (Finite 0) (postsOf posts b)) sel
   \<and> reachAfter pf start [] = start
   \<and> reachAfter pf start (ps @ [q]) = jsAdd (reachAfter pf start ps) (postReach pf q)
   \<and> postReach Instagram p
       = (case reach p of
            Some r \<Rightarrow>
              if truthyNumber r then r
              else (case impressions p of
                      Some i \<Rightarrow> if truthyNumber i then i else Finite 0
                    | None \<Rightarrow> Finite 0)
          | None \<Rightarrow>
              (case impressions p of
                 Some i \<Rightarrow> if truthyNumber i then i else Finite 0
               | None \<Rightarrow> Finite 0))
   \<and> postReach TikTok p
       = (case views p of Some v \<Rightarrow> if truthyNumber v then v else Finite 0 | None \<Rightarrow> Finite 0)
   \<and> (posts b = None \<or> posts b = Some [] \<longrightarrow> brandReach pf (postsOf posts b) = Finite 0)
   \<and> (exactTotal pf ps
        \<longrightarrow> brandReach pf ps = Finite (sum_list (map (\<lambda>q. amount (postReach pf q)) ps)))
   \<and> ((\<forall>b\<in>set sel. exactTotal pf (postsOf posts b))
        \<longrightarrow> reachData (totalReachByBrand pf sel posts)
              = map (\<lambda>b. Finite (sum_list (map (\<lambda>q. amount (postReach pf q)) (postsOf posts b))))
                  sel)
   \<and> ((\<forall>q\<in>set ps. postReach pf q = Finite r) \<and> wholeNumber (Finite r)
          \<and> real (length ps) * r < 2 ^ 53
        \<longrightarrow> brandReach pf ps = Finite (real (length ps) * r))
   \<and> ((\<forall>q\<in>set ps. reach q = Some (Finite r)) \<and> r \<noteq> 0 \<and> wholeNumber (Finite r)
          \<and> real (length ps) * r < 2 ^ 53
        \<longrightarrow> brandReach Instagram ps = Finite (real (length ps) * r))"
proof -
  have c1: "reachData (totalReachByBrand pf sel posts)
       = map (\<lambda>b. reachAfter pf (Finite 0) (postsOf posts b)) sel"
    by (simp add: totalReachByBrand_def brandReach_reachAfter)
  have c2: "reachAfter pf start (ps @ [q]) = jsAdd (reachAfter pf start ps) (postReach pf q)"
    by (simp add: reachAfter_def)
  have c3: "posts b = None \<or> posts b = Some [] \<longrightarrow> brandReach pf (postsOf posts b) = Finite 0"
    by (auto simp: postsOf_def brandReach_def)
  have c4: "(\<forall>b\<in>set sel. exactTotal pf (postsOf posts b))
        \<longrightarrow> reachData (totalReachByBrand pf sel posts)
              = map (\<lambda>b. Finite (sum_list (map (\<lambda>q. amount (postReach pf q)) (postsOf posts b))))
                  sel"
    by (simp add: totalReachByBrand_def brandReach_exact)
  have c5: "(\<forall>q\<in>set ps. postReach pf q = Finite r) \<and> wholeNumber (Finite r)
          \<and> real (length ps) * r < 2 ^ 53
        \<longrightarrow> brandReach pf ps = Finite (real (length ps) * r)"
    using brandReach_const [of ps pf r] by blast
  have "(\<forall>q\<in>set ps. reach q = Some (Finite r)) \<and> r \<noteq> 0
        \<longrightarrow> (\<forall>q\<in>set ps. postReach Instagram q = Finite r)"
    by (simp add: postReach_def truthyNumber_def)
  then have c6: "(\<forall>q\<in>set ps. reach q = Some (Finite r)) \<and> r \<noteq> 0 \<and> wholeNumber (Finite r)
          \<and> real (length ps) * r < 2 ^ 53
        \<longrightarrow> brandReach Instagram ps = Finite (real (length ps) * r)"
    using brandReach_const [of ps Instagram r] by blast
  have c7: "exactTotal pf ps
        \<longrightarrow> brandReach pf ps = Finite (sum_list (map (\<lambda>q. amount (postReach pf q)) ps))"
    by (simp add: brandReach_exact)
  have c8: "reachLabels (totalReachByBrand pf sel posts) = sel"
    by (simp add: totalReachByBrand_def)
  show ?thesis
    by (intro conjI c1 c2 c3 c4 c5 c6 c7 c8 reachAfter_Nil postReach_Instagram
          postReach_TikTok)
qed

theorem totalReachByBrand_sums_witness:
  "exampleInstagram ''B'' = Some []
   \<and> brandReach Instagram (postsOf exampleInstagram ''B'') = Finite 0
   \<and> brandReach Instagram (postsOf exampleInstagram ''C'') = Finite 0
   \<and> postReach Instagram (postsA ! 0) = Finite 7 \<and> postReach Instagram (postsA ! 1) = Finite 7
   \<and> postReach Instagram (postsA ! 2) = Finite 7 \<and> postReach Instagram (postsA ! 3) = Finite 7
   \<and> reach (postsA ! 0) = Some (Finite 7) \<and> reach (postsA ! 1) = Some (Finite 7)
   \<and> reach (postsA ! 2) = Some (Finite 7) \<and> reach (postsA ! 3) = Some (Finite 7)
   \<and> wholeNumber (Finite 7) \<and> real (length postsA) * 7 < 2 ^ 53
   \<and> exactTotal Instagram postsA
   \<and> exactTotal Instagram (postsOf exampleInstagram ''A'')
   \<and> exactTotal Instagram (postsOf exampleInstagram ''B'')
   \<and> exactTotal Instagram (postsOf exampleInstagram ''C'')
   \<and> brandReach Instagram postsA = Finite (4 * 7)
   \<and> reachData (totalReachByBrand Instagram [''A'', ''B'', ''C''] exampleInstagram)
       = [Finite 28, Finite 0, Finite 0]
   \<and> brandReach TikTok
         [tiktokPost (Num 1704067200) (Some (Finite 10)) Absent Absent,
          tiktokPost Undefined None Absent Absent] = Finite 10"
proof -
  have ex: "exactTotal TikTok
         [tiktokPost (Num 1704067200) (Some (Finite 10)) Absent Absent,
          tiktokPost Undefined None Absent Absent]"
    by (simp add: exactTotal_def wholeNumber_def postReach_def tiktokPost_def truthyNumber_def)
  have tk: "brandReach TikTok
         [tiktokPost (Num 1704067200) (Some (Finite 10)) Absent Absent,
          tiktokPost Undefined None Absent Absent] = Finite 10"
    using totalReachByBrand_sums [of TikTok "[]" Map.empty _
        "[tiktokPost (Num 1704067200) (Some (Finite 10)) Absent Absent,
          tiktokPost Undefined None Absent Absent]"] ex
    by (simp add: postReach_def tiktokPost_def truthyNumber_def)
  have each: "\<forall>q\<in>set postsA. postReach Instagram q = Finite 7"
    and field: "\<forall>q\<in>set postsA. reach q = Some (Finite 7)"
    by (simp_all add: postsA_def postReach_def instagramPost_def truthyNumber_def)
  have len: "length postsA = 4"
    by (simp add: postsA_def)
  have w: "wholeNumber (Finite 7)"
    by (simp add: wholeNumber_def)
  have exA: "exactTotal Instagram postsA"
    using each by (simp add: exactTotal_def w) (simp add: postsA_def)
  have b: "exampleInstagram ''B'' = Some []" and c: "exampleInstagram ''C'' = None"
    by (simp_all add: exampleInstagram_def)
  have a: "postsOf exampleInstagram ''A'' = postsA"
    and bc: "postsOf exampleInstagram ''B'' = []" "postsOf exampleInstagram ''C'' = []"
    by (simp_all add: exampleInstagram_def postsOf_def)
  have ex0: "exactTotal Instagram []"
    by (simp add: exactTotal_def)
  have sum: "sum_list (map (\<lambda>q. amount (postReach Instagram q)) postsA) = 28"
    using each by (simp add: postsA_def)
  note t = totalReachByBrand_sums [of Instagram "[''A'', ''B'', ''C'']" exampleInstagram]
  from t [of _ postsA _ _ "''B''" 7] t [of _ postsA _ _ "''C''" 7] each field len b c a bc tk w exA ex0
    sum
  show ?thesis
    by simp
qed

text \<open>
  The total of fractional or large metrics is not their sum. Ten posts with the reach
  0.1 give 0.9999999999999999, which is neither ten times 0.1 nor the double 1 that
  \<open>10 * 0.1\<close> evaluates to; the reach \<open>2 ^ 53\<close> followed by the reach 1 gives
  \<open>2 ^ 53\<close>.
\<close>

theorem totalReachByBrand_sums_counterexample:
  "roundDouble (1 / 10) = Finite tenth
   \<and> length tenthPosts = 10 \<and> set tenthPosts = {tenthPost}
   \<and> reach tenthPost = Some (Finite tenth)
   \<and> postReach Instagram tenthPost = Finite tenth
   \<and> brandReach Instagram tenthPosts = Finite (9007199254740991 / 9007199254740992)
   \<and> 10 * tenth \<noteq> 9007199254740991 / 9007199254740992
   \<and> roundDouble (10 * tenth) = Finite 1
   \<and> postReach Instagram (largePosts ! 0) = Finite 9007199254740992
   \<and> postReach Instagram (largePosts ! 1) = Finite 1
   \<and> length largePosts = 2
   \<and> brandReach Instagram largePosts = Finite 9007199254740992"
proof -
  have d: "roundDouble (1 / 10) = Finite tenth"
    using roundDouble_scaled [of "1 / 10" 56] by (simp add: roundHalfEven_def tenth_def)
  have pr: "postReach Instagram tenthPost = Finite tenth"
    by (simp add: postReach_def tenthPost_def instagramPost_def truthyNumber_def tenth_def)
  have s1: "jsAdd (Finite (0)) (Finite tenth) = Finite (3602879701896397 / 36028797018963968)"
    using roundDouble_scaled [of "0 + tenth" 56]
    by (simp add: roundHalfEven_def tenth_def)
  have s2: "jsAdd (Finite (3602879701896397 / 36028797018963968)) (Finite tenth) = Finite (3602879701896397 / 18014398509481984)"
    using roundDouble_scaled [of "3602879701896397 / 36028797018963968 + tenth" 55]
    by (simp add: roundHalfEven_def tenth_def)
  have s3: "jsAdd (Finite (3602879701896397 / 18014398509481984)) (Finite tenth) = Finite (1351079888211149 / 4503599627370496)"
    using roundDouble_scaled [of "3602879701896397 / 18014398509481984 + tenth" 54]
    by (simp add: roundHalfEven_def tenth_def)
  have s4: "jsAdd (Finite (1351079888211149 / 4503599627370496)) (Finite tenth) = Finite (3602879701896397 / 9007199254740992)"
    using roundDouble_scaled [of "1351079888211149 / 4503599627370496 + tenth" 54]
    by (simp add: roundHalfEven_def tenth_def)
  have s5: "jsAdd (Finite (3602879701896397 / 9007199254740992)) (Finite tenth) = Finite (1 / 2)"
    using roundDouble_scaled [of "3602879701896397 / 9007199254740992 + tenth" 53]
    by (simp add: roundHalfEven_def tenth_def)
  have s6: "jsAdd (Finite (1 / 2)) (Finite tenth) = Finite (5404319552844595 / 9007199254740992)"
    using roundDouble_scaled [of "1 / 2 + tenth" 53]
    by (simp add: roundHalfEven_def tenth_def)
  have s7: "jsAdd (Finite (5404319552844595 / 9007199254740992)) (Finite tenth) = Finite (3152519739159347 / 4503599627370496)"
    using roundDouble_scaled [of "5404319552844595 / 9007199254740992 + tenth" 53]
    by (simp add: roundHalfEven_def tenth_def)
  have s8: "jsAdd (Finite (3152519739159347 / 4503599627370496)) (Finite tenth) = Finite (7205759403792793 / 9007199254740992)"
    using roundDouble_scaled [of "3152519739159347 / 4503599627370496 + tenth" 53]
    by (simp add: roundHalfEven_def tenth_def)
  have s9: "jsAdd (Finite (7205759403792793 / 9007199254740992)) (Finite tenth) = Finite (2026619832316723 / 2251799813685248)"
    using roundDouble_scaled [of "7205759403792793 / 9007199254740992 + tenth" 53]
    by (simp add: roundHalfEven_def tenth_def)
  have s10: "jsAdd (Finite (2026619832316723 / 2251799813685248)) (Finite tenth) = Finite (9007199254740991 / 9007199254740992)"
    using roundDouble_scaled [of "2026619832316723 / 2251799813685248 + tenth" 53]
    by (simp add: roundHalfEven_def tenth_def)
  have r: "replicate 10 tenthPost
           = [tenthPost, tenthPost, tenthPost, tenthPost, tenthPost, tenthPost, tenthPost,
              tenthPost, tenthPost, tenthPost]"
    by (simp add: numeral_eq_Suc)
  have ten: "brandReach Instagram tenthPosts = Finite (9007199254740991 / 9007199254740992)"
    unfolding brandReach_def tenthPosts_def r
    by (simp only: foldl.simps pr s1 s2 s3 s4 s5 s6 s7 s8 s9 s10)
  have ne: "10 * tenth \<noteq> 9007199254740991 / 9007199254740992"
    by (simp add: tenth_def)
  have one: "roundDouble (10 * tenth) = Finite 1"
    using roundDouble_scaled [of "10 * tenth" 52] by (simp add: roundHalfEven_def tenth_def)
  have l0: "postReach Instagram (largePosts ! 0) = Finite 9007199254740992"
    and l1: "postReach Instagram (largePosts ! 1) = Finite 1"
    by (simp_all add: largePosts_def postReach_def instagramPost_def truthyNumber_def)
  have a1: "roundDouble 9007199254740992 = Finite 9007199254740992"
    using roundDouble_halved [of 1 9007199254740992] by (simp add: roundHalfEven_def)
  have a2: "roundDouble 9007199254740993 = Finite 9007199254740992"
    using roundDouble_halved [of 1 9007199254740993] by (simp add: roundHalfEven_def)
  have large: "brandReach Instagram largePosts = Finite 9007199254740992"
    using l0 l1 by (simp add: brandReach_def largePosts_def a1 a2)
  have s: "length tenthPosts = 10" "set tenthPosts = {tenthPost}"
    "reach tenthPost = Some (Finite tenth)" "length largePosts = 2"
    by (simp_all add: tenthPosts_def tenthPost_def instagramPost_def largePosts_def)
  show ?thesis
    by (intro conjI d pr ten ne one l0 l1 large s)
qed

section \<open>Properties of the sentiment distribution\<close>

lemma label_cases:
  obtains "sentimentLabel p = Absent" | "sentimentLabel p = Null"
  | "sentimentLabel p = Present Positive" | "sentimentLabel p = Present Neutral"
  | "sentimentLabel p = Present Negative"
proof (cases "sentimentLabel p")
  case (Present l)
  then show ?thesis using that by (cases l) auto
qed (use that in auto)

lemma countPost_step:
  "positiveCount (countPost c p) = positiveCount c + (if scoredPositive p then 1 else 0)
   \<and> neutralCount (countPost c p) = neutralCount c + (if scoredNeutral p then 1 else 0)
   \<and> negativeCount (countPost c p) = negativeCount c + (if scoredNegative p then 1 else 0)"
proof (cases "sentimentScore p")
  case (Present s)
  then show ?thesis
    by (simp add: countPost_def scoredPositive_def scoredNeutral_def scoredNegative_def)
next
  case Absent
  then show ?thesis
    by (cases p rule: label_cases)
       (simp_all add: countPost_def scoredPositive_def scoredNeutral_def scoredNegative_def)
next
  case Null
  then show ?thesis
    by (cases p rule: label_cases)
       (simp_all add: countPost_def scoredPositive_def scoredNeutral_def scoredNegative_def)
qed

lemma signal_step:
  "(if scoredPositive p then 1 else 0) + (if scoredNeutral p then 1 else 0)
     + (if scoredNegative p then 1 else 0) = (if hasSentimentSignal p then 1 else (0::nat))"
proof (cases "sentimentScore p")
  case (Present s)
  then show ?thesis
    by (simp add: scoredPositive_def scoredNeutral_def scoredNegative_def hasSentimentSignal_def)
next
  case Absent
  then show ?thesis
    by (cases p rule: label_cases)
       (simp_all add: scoredPositive_def scoredNeutral_def scoredNegative_def
          hasSentimentSignal_def)
next
  case Null
  then show ?thesis
    by (cases p rule: label_cases)
       (simp_all add: scoredPositive_def scoredNeutral_def scoredNegative_def
          hasSentimentSignal_def)
qed

lemma foldl_countPost:
  "positiveCount (foldl countPost c ps) = positiveCount c + length (filter scoredPositive ps)
   \<and> neutralCount (foldl countPost c ps) = neutralCount c + length (filter scoredNeutral ps)
   \<and> negativeCount (foldl countPost c ps) = negativeCount c + length (filter scoredNegative ps)"
proof (induction ps arbitrary: c)
  case Nil
  then show ?case by simp
next
  case (Cons p ps)
  have "foldl countPost c (p # ps) = foldl countPost (countPost c p) ps"
    by simp
  then show ?case
    using Cons.IH [of "countPost c p"] countPost_step [of c p] by simp
qed

lemma signal_partition:
  "length (filter scoredPositive ps) + length (filter scoredNeutral ps)
     + length (filter scoredNegative ps) = length (filter hasSentimentSignal ps)"
proof (induction ps)
  case Nil
  then show ?case by simp
next
  case (Cons p ps)
  then show ?case
    using signal_step [of p] by (simp split: if_splits)
qed

lemma brandDistribution_data:
  "distData (brandDistribution posts b)
     = [length (filter scoredPositive (postsOf posts b)),
        length (filter scoredNeutral (postsOf posts b)),
        length (filter scoredNegative (postsOf posts b))]"
  using foldl_countPost
    [of "\<lparr>positiveCount = 0, neutralCount = 0, negativeCount = 0\<rparr>" "postsOf posts b"]
  by (simp add: brandDistribution_def brandCounts_def Let_def)

text \<open>
  C2. For every brand and every list of posts the distribution counts a post as positive
  when its numeric score is above 0, negative when below 0, neutral when 0; a post
  without a numeric score is counted under its label when it has one; a post with
  neither is not counted. So the three counts add up to the number of posts with a
  numeric score or a label. Every entry of the component's output is the distribution
  of one of the selected brands.
\<close>

theorem sentimentDistribution_counts:
  "distData (brandDistribution posts b)
     = [length (filter scoredPositive (postsOf posts b)),
        length (filter scoredNeutral (postsOf posts b)),
        length (filter scoredNegative (postsOf posts b))]
   \<and> sum_list (distData (brandDistribution posts b))
       = length (filter hasSentimentSignal (postsOf posts b))
   \<and> (\<forall>e\<in>set (sentimentDistributionData sel posts).
         brandName e \<in> set sel \<and> e = brandDistribution posts (brandName e))"
proof -
  have "sum_list (distData (brandDistribution posts b))
          = length (filter hasSentimentSignal (postsOf posts b))"
    using signal_partition [of "postsOf posts b"] by (simp add: brandDistribution_data)
  moreover have "\<forall>e\<in>set (sentimentDistributionData sel posts).
         brandName e \<in> set sel \<and> e = brandDistribution posts (brandName e)"
    by (auto simp: sentimentDistributionData_def brandDistribution_def Let_def)
  ultimately show ?thesis
    by (simp add: brandDistribution_data)
qed

theorem sentimentDistribution_counts_witness:
  "sentimentDistributionData [''A'', ''B''] exampleInstagram
     = [\<lparr>brandName = ''A'', distData = [1, 1, 1]\<rparr>]
   \<and> length (filter hasSentimentSignal (postsOf exampleInstagram ''A'')) = 3
   \<and> length (postsOf exampleInstagram ''A'') = 4"
proof -
  have a: "postsOf exampleInstagram ''A'' = postsA"
    by (simp add: exampleInstagram_def postsOf_def)
  have b: "postsOf exampleInstagram ''B'' = []"
    by (simp add: exampleInstagram_def postsOf_def)
  have hd: "hasData [''A'', ''B''] exampleInstagram"
    by (simp add: hasData_def a b postsA_def)
  have pos: "filter scoredPositive postsA = [postsA ! 0]"
    and neu: "filter scoredNeutral postsA = [postsA ! 2]"
    and neg: "filter scoredNegative postsA = [postsA ! 1]"
    by (simp_all add: postsA_def scoredPositive_def scoredNeutral_def scoredNegative_def
          instagramPost_def)
  note t = sentimentDistribution_counts [of exampleInstagram _ "[''A'', ''B'']"]
  have da: "brandDistribution exampleInstagram ''A'' = \<lparr>brandName = ''A'', distData = [1, 1, 1]\<rparr>"
    using t [of "''A''"] by (simp add: a pos neu neg brandDistribution_def Let_def)
  have db: "brandDistribution exampleInstagram ''B'' = \<lparr>brandName = ''B'', distData = [0, 0, 0]\<rparr>"
    using t [of "''B''"] by (simp add: b brandDistribution_def Let_def)
  have "length (filter hasSentimentSignal (postsOf exampleInstagram ''A'')) = 3"
    using t [of "''A''"] by (simp add: a da)
  then show ?thesis
    using hd da db by (simp add: sentimentDistributionData_def a postsA_def)
qed

section \<open>Properties of the Date library\<close>

subsection \<open>Years\<close>

lemma div_bounds: "0 < k \<Longrightarrow> k * (a div k) \<le> a \<and> a < k * (a div k) + k" for a k :: int
proof -
  assume k: "0 < k"
  have "k * (a div k) + a mod k = a" by simp
  moreover have "0 \<le> a mod k" "a mod k < k" using k by simp_all
  ultimately show ?thesis by linarith
qed

lemma div_succ:
  "0 < k \<Longrightarrow> (a + 1) div k = a div k + (if (a + 1) mod k = 0 then 1 else 0)" for a k :: int
proof -
  assume k: "0 < k"
  define q where "q = a div k"
  define r where "r = a mod k"
  have a: "a = k * q + r" and r: "0 \<le> r" "r < k"
    using k by (simp_all add: q_def r_def)
  show ?thesis
  proof (cases "r = k - 1")
    case True
    then have e: "a + 1 = k * (q + 1) + 0" using a by (simp add: algebra_simps)
    have "(a + 1) div k = q + 1" using k by (intro int_div_pos_eq [OF e]) simp_all
    moreover have "(a + 1) mod k = 0" using k by (intro int_mod_pos_eq [OF e]) simp_all
    ultimately show ?thesis by (simp add: q_def)
  next
    case False
    then have e: "a + 1 = k * q + (r + 1)" and r1: "0 \<le> r + 1" "r + 1 < k"
      using a r by simp_all
    have "(a + 1) div k = q" by (rule int_div_pos_eq [OF e r1])
    moreover have "(a + 1) mod k = r + 1" by (rule int_mod_pos_eq [OF e r1])
    ultimately show ?thesis using r by (simp add: q_def)
  qed
qed

lemma year_mod4: "(y - 1968) mod 4 = y mod 4" for y :: int
proof -
  have "y - 1968 = y + 4 * (- 492)" by simp
  then show ?thesis by (simp only: mod_mult_self2)
qed

lemma year_mod100: "(y - 1900) mod 100 = y mod 100" for y :: int
proof -
  have "y - 1900 = y + 100 * (- 19)" by simp
  then show ?thesis by (simp only: mod_mult_self2)
qed

lemma year_mod400: "(y - 1600) mod 400 = y mod 400" for y :: int
proof -
  have "y - 1600 = y + 400 * (- 4)" by simp
  then show ?thesis by (simp only: mod_mult_self2)
qed

lemma year_mod_chain:
  "y mod 400 = 0 \<Longrightarrow> y mod 100 = 0" "y mod 100 = 0 \<Longrightarrow> y mod 4 = 0" for y :: int
  by presburger+

lemma DayFromYear_step: "DayFromYear (y + 1) = DayFromYear y + DaysInYear y"
proof -
  have a: "(y - 1968) div 4 = (y - 1969) div 4 + (if y mod 4 = 0 then 1 else 0)"
    using div_succ [of 4 "y - 1969"] by (simp add: year_mod4)
  have b: "(y - 1900) div 100 = (y - 1901) div 100 + (if y mod 100 = 0 then 1 else 0)"
    using div_succ [of 100 "y - 1901"] by (simp add: year_mod100)
  have c: "(y - 1600) div 400 = (y - 1601) div 400 + (if y mod 400 = 0 then 1 else 0)"
    using div_succ [of 400 "y - 1601"] by (simp add: year_mod400)
  have "DayFromYear (y + 1)
          = 365 * (y - 1969) + (y - 1968) div 4 - (y - 1900) div 100 + (y - 1600) div 400"
    by (simp add: DayFromYear_def algebra_simps)
  then show ?thesis
    using year_mod_chain [of y]
    by (auto simp add: a b c DayFromYear_def DaysInYear_def)
qed

lemma DaysInYear_range: "365 \<le> DaysInYear y \<and> DaysInYear y \<le> 366"
  by (simp add: DaysInYear_def)

lemma DayFromYear_bounds:
  "146097 * (y - 1970) - 506 \<le> 400 * DayFromYear y
   \<and> 400 * DayFromYear y \<le> 146097 * (y - 1970) + 589"
proof -
  define A where "A = (y - 1969) div 4"
  define B where "B = (y - 1901) div 100"
  define C where "C = (y - 1601) div 400"
  have a: "4 * A \<le> y - 1969" "y - 1969 < 4 * A + 4"
    unfolding A_def using div_bounds [of 4 "y - 1969"] by simp_all
  have b: "100 * B \<le> y - 1901" "y - 1901 < 100 * B + 100"
    unfolding B_def using div_bounds [of 100 "y - 1901"] by simp_all
  have c: "400 * C \<le> y - 1601" "y - 1601 < 400 * C + 400"
    unfolding C_def using div_bounds [of 400 "y - 1601"] by simp_all
  have d: "DayFromYear y = 365 * (y - 1970) + A - B + C"
    by (simp add: DayFromYear_def A_def B_def C_def)
  have "146097 * (y - 1970) - 506 \<le> 400 * DayFromYear y"
    using a b c unfolding d by (simp add: algebra_simps)
  moreover have "400 * DayFromYear y \<le> 146097 * (y - 1970) + 589"
    using a b c unfolding d by (simp add: algebra_simps)
  ultimately show ?thesis by simp
qed

lemma YearFromDay_bracket:
  "DayFromYear (YearFromDay d) \<le> d \<and> d < DayFromYear (YearFromDay d + 1)"
proof -
  define q where "q = (400 * d) div 146097"
  define y where "y = 1970 + q"
  have q: "146097 * q \<le> 400 * d" "400 * d < 146097 * q + 146097"
    unfolding q_def using div_bounds [of 146097 "400 * d"] by simp_all
  have up: "400 * DayFromYear (y - 1) \<le> 146097 * (q - 1) + 589"
    using DayFromYear_bounds [of "y - 1"] by (simp add: y_def algebra_simps)
  have lo: "146097 * (q + 2) - 506 \<le> 400 * DayFromYear (y + 2)"
    using DayFromYear_bounds [of "y + 2"] by (simp add: y_def algebra_simps)
  have prev: "DayFromYear (y - 1) \<le> d"
    using up q by (simp add: algebra_simps)
  have nxt: "d < DayFromYear (y + 2)"
    using lo q by (simp add: algebra_simps)
  have s1: "DayFromYear (y - 1 + 1) = DayFromYear y" by simp
  have s2: "DayFromYear (y + 1 + 1) = DayFromYear (y + 2)" by (simp add: add.assoc)
  have yd: "YearFromDay d =
      (if DayFromYear (y + 1) \<le> d then y + 1 else if d < DayFromYear y then y - 1 else y)"
    by (simp add: YearFromDay_def Let_def y_def q_def)
  show ?thesis
    unfolding yd using prev nxt s1 s2 by auto
qed

subsection \<open>Months and days\<close>

lemma DayWithinYear_bounds:
  "0 \<le> DayWithinYear t \<and> DayWithinYear t < DaysInYear (YearFromTime t)"
  using YearFromDay_bracket [of "Day t"] DayFromYear_step [of "YearFromTime t"]
  by (simp add: DayWithinYear_def YearFromTime_def)

lemma InLeapYear_cases:
  "(InLeapYear t = 0 \<and> DaysInYear (YearFromTime t) = 365)
   \<or> (InLeapYear t = 1 \<and> DaysInYear (YearFromTime t) = 366)"
  using DaysInYear_range [of "YearFromTime t"] by (auto simp: InLeapYear_def DaysInYear_def)

lemma monthOfDay_bounds:
  "0 \<le> monthOfDay leap d \<and> monthOfDay leap d \<le> 11"
  by (simp add: monthOfDay_def)

lemma day_in_month:
  assumes "leap = 0 \<or> leap = 1" "0 \<le> d" "d < 365 + leap"
  shows "1 \<le> d - monthStart leap (monthOfDay leap d) + 1
         \<and> d - monthStart leap (monthOfDay leap d) + 1
             \<le> DaysInMonth leap (monthOfDay leap d)"
  using assms by (auto simp: monthOfDay_def monthStart_def DaysInMonth_def)

lemma MonthFromTime_bounds: "0 \<le> MonthFromTime t \<and> MonthFromTime t \<le> 11"
  by (simp add: MonthFromTime_def monthOfDay_bounds)

lemma DateFromTime_bounds:
  "1 \<le> DateFromTime t
   \<and> DateFromTime t \<le> DaysInMonth (InLeapYear t) (MonthFromTime t)"
proof -
  have "InLeapYear t = 0 \<or> InLeapYear t = 1" "DayWithinYear t < 365 + InLeapYear t"
    using InLeapYear_cases [of t] DayWithinYear_bounds [of t] by auto
  then show ?thesis
    using day_in_month [of "InLeapYear t" "DayWithinYear t"] DayWithinYear_bounds [of t]
    by (simp add: DateFromTime_def MonthFromTime_def)
qed

lemma DaysInMonth_le: "leap \<le> 1 \<Longrightarrow> DaysInMonth leap m \<le> 31"
  by (simp add: DaysInMonth_def)

lemma DateFromTime_le: "DateFromTime t \<le> 31"
proof -
  have "InLeapYear t \<le> 1" by (simp add: InLeapYear_def)
  then show ?thesis
    using DateFromTime_bounds [of t] DaysInMonth_le [of "InLeapYear t" "MonthFromTime t"]
    by linarith
qed

lemma Day_bounds:
  assumes "\<bar>t\<bar> \<le> maxTime"
  shows "- 100000000 \<le> Day t \<and> Day t \<le> 100000000"
proof -
  have "msPerDay * Day t \<le> t" "t < msPerDay * Day t + msPerDay"
    unfolding Day_def using div_bounds [of msPerDay t] by (simp_all add: msPerDay_def)
  then have "86400000 * Day t \<le> t" "t < 86400000 * Day t + 86400000"
    by (simp_all add: msPerDay_def)
  moreover have "- 8640000000000000 \<le> t" "t \<le> 8640000000000000"
    using assms by (simp_all add: maxTime_def)
  ultimately have "- 100000000 \<le> Day t" "Day t \<le> 100000000"
    by linarith+
  then show ?thesis by simp
qed

lemma YearFromTime_bounds:
  assumes "\<bar>t\<bar> \<le> maxTime"
  shows "- 271821 \<le> YearFromTime t \<and> YearFromTime t \<le> 275760"
proof -
  define y where "y = YearFromTime t"
  have br: "DayFromYear y \<le> Day t" "Day t < DayFromYear (y + 1)"
    using YearFromDay_bracket [of "Day t"] by (simp_all add: y_def YearFromTime_def)
  have "146097 * (y - 1970) - 506 \<le> 400 * Day t"
    using DayFromYear_bounds [of y] br by linarith
  moreover have "400 * Day t < 146097 * (y + 1 - 1970) + 589"
    using DayFromYear_bounds [of "y + 1"] br by linarith
  ultimately show ?thesis
    using Day_bounds [OF assms] unfolding y_def [symmetric] by (simp add: algebra_simps)
qed

subsection \<open>Writing and reading decimal digits\<close>

lemma small_int_cases:
  fixes m :: int
  assumes "0 \<le> m" "m < 10"
  shows "m = 0 \<or> m = 1 \<or> m = 2 \<or> m = 3 \<or> m = 4 \<or> m = 5 \<or> m = 6 \<or> m = 7 \<or> m = 8 \<or> m = 9"
  using assms by presburger

lemma digit_cases:
  fixes n :: int
  obtains "n mod 10 = 0" | "n mod 10 = 1" | "n mod 10 = 2" | "n mod 10 = 3" | "n mod 10 = 4"
  | "n mod 10 = 5" | "n mod 10 = 6" | "n mod 10 = 7" | "n mod 10 = 8" | "n mod 10 = 9"
  using small_int_cases [of "n mod 10"] by fastforce

lemma digitVal_digitChar: "digitVal (digitChar n) = Some (n mod 10)"
  by (cases n rule: digit_cases) (simp_all add: digitVal_def digitChar_def decimalDigits_def)

lemma digitChar_in_digits: "digitChar n \<in> set decimalDigits"
  by (cases n rule: digit_cases) (simp_all add: digitChar_def decimalDigits_def)

lemma digitChar_plain:
  "digitChar n \<noteq> CHR ''T'' \<and> digitChar n \<noteq> CHR ''-'' \<and> digitChar n \<noteq> CHR ''+''"
  using digitChar_in_digits [of n] by (auto simp: decimalDigits_def)

lemma div10_chain:
  fixes n :: int
  shows "n div 10 div 10 = n div 100" "n div 100 div 10 = n div 1000"
    "n div 1000 div 10 = n div 10000" "n div 10000 div 10 = n div 100000"
  by (simp_all add: div_mult2_eq [symmetric])

lemma decimal_expansion:
  fixes n :: int
  shows "n = 10 * (n div 10) + n mod 10"
    "n div 10 = 10 * (n div 100) + n div 10 mod 10"
    "n div 100 = 10 * (n div 1000) + n div 100 mod 10"
    "n div 1000 = 10 * (n div 10000) + n div 1000 mod 10"
    "n div 10000 = 10 * (n div 100000) + n div 10000 mod 10"
  using mult_div_mod_eq [of 10 n] mult_div_mod_eq [of 10 "n div 10"]
    mult_div_mod_eq [of 10 "n div 100"] mult_div_mod_eq [of 10 "n div 1000"]
    mult_div_mod_eq [of 10 "n div 10000"]
  by (simp_all add: div10_chain)

lemma horner2:
  fixes n :: int
  assumes "n = 10 * x1 + m0" "x1 = m1"
  shows "10 * (10 * 0 + m1) + m0 = n"
  using assms by simp

lemma horner4:
  fixes n :: int
  assumes "n = 10 * x1 + m0" "x1 = 10 * x2 + m1" "x2 = 10 * x3 + m2" "x3 = m3"
  shows "10 * (10 * (10 * (10 * 0 + m3) + m2) + m1) + m0 = n"
  using assms by simp

lemma horner6:
  fixes n :: int
  assumes "n = 10 * x1 + m0" "x1 = 10 * x2 + m1" "x2 = 10 * x3 + m2" "x3 = 10 * x4 + m3"
    "x4 = 10 * x5 + m4" "x5 = m5"
  shows "10 * (10 * (10 * (10 * (10 * (10 * 0 + m5) + m4) + m3) + m2) + m1) + m0 = n"
  using assms by simp

lemma small_div10: "0 \<le> x \<Longrightarrow> x < 10 \<Longrightarrow> x = x mod 10" for x :: int
  by simp

lemma digitsVal_pad2: "0 \<le> n \<Longrightarrow> n < 100 \<Longrightarrow> digitsVal 0 (pad2 n) = Some n"
proof -
  assume n: "0 \<le> n" "n < 100"
  have "0 \<le> n div 10" "n div 10 < 10" using n by simp_all
  then have e: "n div 10 = n div 10 mod 10" by (rule small_div10)
  have "10 * (10 * 0 + n div 10 mod 10) + n mod 10 = n"
    by (rule horner2 [OF decimal_expansion(1) [of n] e])
  then show ?thesis
    by (simp only: pad2_def digitsVal.simps digitVal_digitChar option.case
          mod_mod_trivial)
qed

lemma digitsVal_pad4: "0 \<le> n \<Longrightarrow> n < 10000 \<Longrightarrow> digitsVal 0 (pad4 n) = Some n"
proof -
  assume n: "0 \<le> n" "n < 10000"
  have "0 \<le> n div 1000" "n div 1000 < 10" using n by simp_all
  then have e: "n div 1000 = n div 1000 mod 10" by (rule small_div10)
  have "10 * (10 * (10 * (10 * 0 + n div 1000 mod 10) + n div 100 mod 10)
          + n div 10 mod 10) + n mod 10 = n"
    by (rule horner4 [OF decimal_expansion(1,2,3) [of n] e])
  then show ?thesis
    by (simp only: pad4_def pad3_def pad2_def digitsVal.simps digitVal_digitChar option.case
          mod_mod_trivial)
qed

lemma digitsVal_pad6: "0 \<le> n \<Longrightarrow> n < 1000000 \<Longrightarrow> digitsVal 0 (pad6 n) = Some n"
proof -
  assume n: "0 \<le> n" "n < 1000000"
  have "0 \<le> n div 100000" "n div 100000 < 10" using n by simp_all
  then have e: "n div 100000 = n div 100000 mod 10" by (rule small_div10)
  have "10 * (10 * (10 * (10 * (10 * (10 * 0 + n div 100000 mod 10) + n div 10000 mod 10)
          + n div 1000 mod 10) + n div 100 mod 10) + n div 10 mod 10) + n mod 10 = n"
    by (rule horner6 [OF decimal_expansion [of n] e])
  then show ?thesis
    by (simp only: pad6_def pad4_def pad3_def pad2_def digitsVal.simps digitVal_digitChar
          option.case mod_mod_trivial)
qed

subsection \<open>Reading back the date that toISOString writes\<close>

lemma parseMonthDay_pads:
  assumes "0 \<le> m" "m < 100" "0 \<le> d" "d < 100"
  shows "parseMonthDay y (''-'' @ pad2 m @ ''-'' @ pad2 d) = makeDate y m d"
proof -
  have "''-'' @ pad2 m @ ''-'' @ pad2 d
          = [CHR ''-'', digitChar (m div 10 mod 10), digitChar (m mod 10), CHR ''-'',
             digitChar (d div 10 mod 10), digitChar (d mod 10)]"
    by (simp add: pad2_def)
  moreover have "digitsVal 0 [digitChar (m div 10 mod 10), digitChar (m mod 10)] = Some m"
    using digitsVal_pad2 [OF assms(1,2)] by (simp only: pad2_def)
  moreover have "digitsVal 0 [digitChar (d div 10 mod 10), digitChar (d mod 10)] = Some d"
    using digitsVal_pad2 [OF assms(3,4)] by (simp only: pad2_def)
  ultimately show ?thesis
    by (simp only: parseMonthDay_def list.case option.case if_True simp_thms)
qed

lemma length_pads: "length (pad2 n) = 2" "length (pad4 n) = 4" "length (pad6 n) = 6"
  by (simp_all add: pad2_def pad3_def pad4_def pad6_def)

lemma makeDate_of_time:
  assumes "\<bar>t\<bar> \<le> maxTime"
  shows "makeDate (YearFromTime t) (MonthFromTime t + 1) (DateFromTime t)
           = Some (Day t * msPerDay)"
proof -
  have leap: "leapOfYear (YearFromTime t) = InLeapYear t"
    by (simp add: leapOfYear_def InLeapYear_def)
  have day: "DayFromYear (YearFromTime t) + monthStart (InLeapYear t) (MonthFromTime t)
               + (DateFromTime t - 1) = Day t"
    by (simp add: DateFromTime_def DayWithinYear_def)
  have "- 100000000 \<le> Day t" "Day t \<le> 100000000"
    using Day_bounds [OF assms] by simp_all
  then have range: "\<bar>Day t * msPerDay\<bar> \<le> maxTime"
    by (simp add: msPerDay_def maxTime_def abs_le_iff)
  show ?thesis
    using MonthFromTime_bounds [of t] DateFromTime_bounds [of t] range
    by (simp add: makeDate_def leap day)
qed

lemma parseDateOnly_isoDate:
  assumes "\<bar>t\<bar> \<le> maxTime"
  shows "parseDateOnly (isoDate t) = Some (Day t * msPerDay)"
proof -
  define y where "y = YearFromTime t"
  define rest where "rest = ''-'' @ pad2 (MonthFromTime t + 1) @ ''-'' @ pad2 (DateFromTime t)"
  have len: "length rest = 6"
    by (simp add: rest_def length_pads)
  have iso: "isoDate t = isoYear y @ rest"
    by (simp add: isoDate_def rest_def y_def)
  have "0 \<le> MonthFromTime t + 1" "MonthFromTime t + 1 < 100"
    "0 \<le> DateFromTime t" "DateFromTime t < 100"
    using MonthFromTime_bounds [of t] DateFromTime_bounds [of t] DateFromTime_le [of t]
    by simp_all
  then have pmd: "parseMonthDay y rest = Some (Day t * msPerDay)"
    unfolding rest_def y_def
    by (simp only: parseMonthDay_pads makeDate_of_time [OF assms])
  have yb: "- 271821 \<le> y" "y \<le> 275760"
    using YearFromTime_bounds [OF assms] by (simp_all add: y_def)
  consider "0 \<le> y \<and> y \<le> 9999" | "y < 0" | "9999 < y" by linarith
  then show ?thesis
  proof cases
    case 1
    then have "isoDate t = pad4 y @ rest" "digitsVal 0 (pad4 y) = Some y"
      using digitsVal_pad4 [of y] by (simp_all add: iso isoYear_def)
    then show ?thesis
      by (simp add: parseDateOnly_def len length_pads pmd)
  next
    case 2
    then have "isoDate t = CHR ''-'' # pad6 (- y) @ rest" "digitsVal 0 (pad6 (- y)) = Some (- y)"
      using digitsVal_pad6 [of "- y"] yb by (simp_all add: iso isoYear_def)
    then show ?thesis
      using 2 by (simp add: parseDateOnly_def len length_pads pmd)
  next
    case 3
    then have "isoDate t = CHR ''+'' # pad6 y @ rest" "digitsVal 0 (pad6 y) = Some y"
      using digitsVal_pad6 [of y] yb by (simp_all add: iso isoYear_def)
    then show ?thesis
      by (simp add: parseDateOnly_def len length_pads pmd)
  qed
qed

lemma isoDate_nonempty: "isoDate t \<noteq> []"
  by (simp add: isoDate_def)

lemma digitChar_not_T: "CHR ''T'' \<noteq> digitChar n"
  using digitChar_plain [of n] by auto

lemma pad_plain:
  "CHR ''T'' \<notin> set (pad2 n)" "CHR ''T'' \<notin> set (pad4 n)" "CHR ''T'' \<notin> set (pad6 n)"
  by (simp_all add: pad2_def pad3_def pad4_def pad6_def digitChar_not_T)

lemma isoDate_plain: "CHR ''T'' \<notin> set (isoDate t)"
  by (simp add: isoDate_def isoYear_def pad_plain)

lemma splitT0_toISOString: "toISOString (Some t) = Inr s \<Longrightarrow> splitT0 s = isoDate t"
  using isoDate_plain [of t]
  by (auto simp: toISOString_def splitT0_def takeWhile_tail)

lemma isoDate_Day: "Day t = Day u \<Longrightarrow> isoDate t = isoDate u"
  by (simp add: isoDate_def YearFromTime_def MonthFromTime_def DateFromTime_def
        InLeapYear_def DayWithinYear_def)

lemma newDate_isoDate:
  "\<bar>t\<bar> \<le> maxTime \<Longrightarrow> newDate h (Str (isoDate t)) = Some (Day t * msPerDay)"
  by (simp add: Date_parse_def parseDateOnly_isoDate)

section \<open>Properties of the grouping key\<close>

lemma TimeClip_range: "TimeClip x = Some t \<Longrightarrow> \<bar>t\<bar> \<le> maxTime"
proof -
  assume a: "TimeClip x = Some t"
  then have x: "\<bar>x\<bar> \<le> 8640000000000000" and t: "t = (if x \<ge> 0 then \<lfloor>x\<rfloor> else \<lceil>x\<rceil>)"
    by (auto simp: TimeClip_def split: if_splits)
  show ?thesis
  proof (cases "x \<ge> 0")
    case True
    then have "0 \<le> \<lfloor>x\<rfloor>" "\<lfloor>x\<rfloor> \<le> 8640000000000000"
      using x by (simp_all add: floor_le_iff)
    then show ?thesis using True t by (simp add: maxTime_def)
  next
    case False
    have "- 8640000000000000 \<le> x" using x by (simp add: abs_le_iff)
    then have "\<lceil>- 8640000000000000 :: real\<rceil> \<le> \<lceil>x\<rceil>" by (rule ceiling_mono)
    then have c1: "- 8640000000000000 \<le> \<lceil>x\<rceil>" by (simp only: ceiling_neg_numeral)
    have c2: "\<lceil>x\<rceil> \<le> 0" using False by (simp add: ceiling_le_iff)
    have "t = \<lceil>x\<rceil>" using False t by simp
    then show ?thesis unfolding maxTime_def using c1 c2 by linarith
  qed
qed

lemma parseMonthDay_range: "parseMonthDay y rest = Some t \<Longrightarrow> \<bar>t\<bar> \<le> maxTime"
  by (auto simp: parseMonthDay_def makeDate_def Let_def split: list.splits if_splits option.splits)

lemma parseDateOnly_range: "parseDateOnly s = Some t \<Longrightarrow> \<bar>t\<bar> \<le> maxTime"
  by (auto simp: parseDateOnly_def split: if_splits option.splits dest: parseMonthDay_range)

lemma Date_parse_range: "Date_parse h s = Some t \<Longrightarrow> \<bar>t\<bar> \<le> maxTime"
  by (auto simp: Date_parse_def split: if_splits option.splits dest: parseDateOnly_range)

lemma newDate_range: "newDate h v = Some t \<Longrightarrow> \<bar>t\<bar> \<le> maxTime"
proof (cases v)
  case Undefined
  assume "newDate h v = Some t"
  then show ?thesis using Undefined by simp
next
  case (Num x)
  assume "newDate h v = Some t"
  then show ?thesis using Num TimeClip_range [of x t] by simp
next
  case (Str s)
  assume "newDate h v = Some t"
  then show ?thesis using Str Date_parse_range [of h s t] by simp
next
  case (DateObj d)
  assume "newDate h v = Some t"
  then show ?thesis
    using DateObj by (cases d) (simp_all add: TimeClip_range)
qed

lemma groupingDate_range: "groupingDate h v = Some t \<Longrightarrow> \<bar>t\<bar> \<le> maxTime"
proof (cases v)
  case (Num x)
  assume "groupingDate h v = Some t"
  then show ?thesis
    using Num TimeClip_range [of "x * 1000" t] TimeClip_range [of x t]
    by (simp add: groupingDate_def split: if_splits)
next
  case Undefined
  assume "groupingDate h v = Some t"
  then show ?thesis using Undefined by (simp add: groupingDate_def)
next
  case (Str s)
  assume "groupingDate h v = Some t"
  then show ?thesis using Str newDate_range [of h v t] by (simp add: groupingDate_def)
next
  case (DateObj d)
  assume "groupingDate h v = Some t"
  then show ?thesis using DateObj newDate_range [of h v t] by (simp add: groupingDate_def)
qed

lemma formatDateForGrouping_eq:
  "formatDateForGrouping h v
     = Inr (case groupingDate h v of None \<Rightarrow> [] | Some t \<Rightarrow> isoDate t)"
proof -
  have date: "(case v of
           Num x \<Rightarrow> if x < 1000000000000 then newDate h (Num (x * 1000)) else newDate h v
         | _ \<Rightarrow> newDate h v) = groupingDate h v"
    by (cases v) (simp_all add: groupingDate_def)
  show ?thesis
  proof (cases "groupingDate h v")
    case None
    then show ?thesis by (simp add: formatDateForGrouping_def date)
  next
    case (Some t)
    obtain s where s: "toISOString (Some t) = Inr s"
      by (simp add: toISOString_def)
    then show ?thesis
      using Some splitT0_toISOString [OF s]
      by (simp add: formatDateForGrouping_def date)
  qed
qed








section \<open>Properties of the sentiment time series\<close>

subsection \<open>The state of the loops\<close>

lemma formatDateForGrouping_Inr: "\<exists>k. formatDateForGrouping h v = Inr k"
  by (simp add: formatDateForGrouping_eq)

lemma addPost_eq: "addPost h pf b st p = Inr (stepPost h pf b st p)"
proof -
  obtain k where k: "formatDateForGrouping h (postTimestamp pf p) = Inr k"
    using formatDateForGrouping_Inr by blast
  show ?thesis
    by (cases "sentimentScore p") (simp_all add: addPost_def stepPost_def postKey_def k Let_def)
qed

lemma forEachPost_eq: "forEachPost h pf b st ps = Inr (foldl (stepPost h pf b) st ps)"
  by (induction ps arbitrary: st) (simp_all add: addPost_eq)

lemma forEachBrand_eq: "forEachBrand h pf posts st bs = Inr (loopState h pf posts st bs)"
  by (induction bs arbitrary: st) (simp_all add: forEachPost_eq loopState_def)

lemma foldl_plus: "foldl (+) a xs = a + sum_list xs" for a :: real
  by (induction xs arbitrary: a) simp_all

lemma dayMean_lookup: "dayMean d b k = meanOf (lookupScores d k b)"
  by (auto simp: dayMean_def lookupScores_def meanOf_def foldl_plus split: option.splits)

lemma lookupScores_pushScore:
  "lookupScores (pushScore d k b s) k' b'
     = lookupScores d k' b' @ (if k' = k \<and> b' = b then [s] else [])"
  by (auto simp: lookupScores_def pushScore_def Let_def split: option.splits)

lemma dayScores_Cons:
  "dayScores h pf k (p # ps)
     = (case postKey h pf p of
          None \<Rightarrow> []
        | Some (k', s) \<Rightarrow> if k' = k then [s] else []) @ dayScores h pf k ps"
  by (simp add: dayScores_def map_filter_simps split: option.splits)

lemma lookupScores_stepPost:
  "lookupScores (dailyBrandSentiments (stepPost h pf b st p)) k b'
     = lookupScores (dailyBrandSentiments st) k b'
         @ (if b' = b then dayScores h pf k [p] else [])"
  by (auto simp: stepPost_def dayScores_def map_filter_simps lookupScores_pushScore
        split: option.splits)

lemma lookupScores_posts:
  "lookupScores (dailyBrandSentiments (foldl (stepPost h pf b) st ps)) k b'
     = lookupScores (dailyBrandSentiments st) k b'
         @ (if b' = b then dayScores h pf k ps else [])"
proof (induction ps arbitrary: st)
  case Nil
  then show ?case by (simp add: dayScores_def map_filter_simps)
next
  case (Cons p ps)
  have "dayScores h pf k (p # ps) = dayScores h pf k [p] @ dayScores h pf k ps"
    by (simp add: dayScores_def map_filter_simps split: option.splits)
  then show ?case
    by (simp add: Cons.IH lookupScores_stepPost)
qed

lemma lookupScores_loop:
  "lookupScores (dailyBrandSentiments (loopState h pf posts st bs)) k b'
     = lookupScores (dailyBrandSentiments st) k b'
         @ concat (map (\<lambda>b. if b' = b then dayScores h pf k (postsOf posts b) else []) bs)"
proof (induction bs arbitrary: st)
  case Nil
  then show ?case by (simp add: loopState_def)
next
  case (Cons b bs)
  have "loopState h pf posts st (b # bs)
          = loopState h pf posts (foldl (stepPost h pf b) st (postsOf posts b)) bs"
    by (simp add: loopState_def)
  then show ?case
    by (simp add: Cons.IH lookupScores_posts)
qed

lemma setAdd_set: "set (setAdd k ks) = insert k (set ks)"
  by (auto simp: setAdd_def)

lemma setAdd_distinct: "distinct ks \<Longrightarrow> distinct (setAdd k ks)"
  by (simp add: setAdd_def)

lemma allDates_stepPost:
  "set (allDates (stepPost h pf b st p)) = set (allDates st) \<union> set (postKeys h pf [p])
   \<and> (distinct (allDates st) \<longrightarrow> distinct (allDates (stepPost h pf b st p)))"
  by (auto simp: stepPost_def postKeys_def map_filter_simps setAdd_set setAdd_distinct
        split: option.splits)

lemma postKeys_Cons: "postKeys h pf (p # ps) = postKeys h pf [p] @ postKeys h pf ps"
  by (simp add: postKeys_def map_filter_simps split: option.splits)

lemma allDates_posts:
  "set (allDates (foldl (stepPost h pf b) st ps)) = set (allDates st) \<union> set (postKeys h pf ps)
   \<and> (distinct (allDates st) \<longrightarrow> distinct (allDates (foldl (stepPost h pf b) st ps)))"
proof (induction ps arbitrary: st)
  case Nil
  then show ?case by (simp add: postKeys_def map_filter_simps)
next
  case (Cons p ps)
  show ?case
    using Cons.IH [of "stepPost h pf b st p"] allDates_stepPost [of h pf b st p]
      postKeys_Cons [of h pf p ps]
    by auto
qed

lemma allDates_loop:
  "set (allDates (loopState h pf posts st bs))
     = set (allDates st) \<union> set (qualifyingKeys h pf bs posts)
   \<and> (distinct (allDates st) \<longrightarrow> distinct (allDates (loopState h pf posts st bs)))"
proof (induction bs arbitrary: st)
  case Nil
  then show ?case by (simp add: loopState_def qualifyingKeys_def)
next
  case (Cons b bs)
  have "loopState h pf posts st (b # bs)
          = loopState h pf posts (foldl (stepPost h pf b) st (postsOf posts b)) bs"
    by (simp add: loopState_def)
  then show ?case
    using Cons.IH [of "foldl (stepPost h pf b) st (postsOf posts b)"]
      allDates_posts [of h pf b st "postsOf posts b"]
    by (auto simp: qualifyingKeys_def)
qed

text \<open>Every key of a qualifying post is the date of a time value in range.\<close>

lemma postKey_valid:
  "postKey h pf p = Some (k, s) \<Longrightarrow> \<exists>t. \<bar>t\<bar> \<le> maxTime \<and> k = isoDate t"
  by (auto simp: postKey_def formatDateForGrouping_eq
        split: field.splits if_splits option.splits dest: groupingDate_range)

lemma postKeys_member:
  "k \<in> set (postKeys h pf ps) \<longleftrightarrow> (\<exists>p\<in>set ps. \<exists>s. postKey h pf p = Some (k, s))"
proof (induction ps)
  case Nil
  then show ?case by (simp add: postKeys_def)
next
  case (Cons p ps)
  have "set (postKeys h pf (p # ps)) = set (postKeys h pf [p]) \<union> set (postKeys h pf ps)"
    using postKeys_Cons [of h pf p ps] by simp
  moreover have "k \<in> set (postKeys h pf [p]) \<longleftrightarrow> (\<exists>s. postKey h pf p = Some (k, s))"
    by (auto simp: postKeys_def split: option.splits)
  ultimately show ?case using Cons.IH by auto
qed

lemma postKeys_valid:
  "k \<in> set (postKeys h pf ps) \<Longrightarrow> \<exists>t. \<bar>t\<bar> \<le> maxTime \<and> k = isoDate t"
  using postKey_valid by (auto simp: postKeys_member)

lemma qualifyingKeys_valid:
  "k \<in> set (qualifyingKeys h pf bs posts) \<Longrightarrow> \<exists>t. \<bar>t\<bar> \<le> maxTime \<and> k = isoDate t"
  by (auto simp: qualifyingKeys_def dest: postKeys_valid)

subsection \<open>The sort\<close>

lemma insertBy_set: "set (insertBy c x xs) = insert x (set xs)"
  by (induction xs) auto

lemma insertBy_length: "length (insertBy c x xs) = Suc (length xs)"
  by (induction xs) auto

lemma insertBy_distinct: "distinct (insertBy c x xs) = (x \<notin> set xs \<and> distinct xs)"
  by (induction xs) (auto simp: insertBy_set)

lemma insertBy_sorted:
  assumes "\<forall>a\<in>S. \<forall>b\<in>S. (c a b \<le> 0) = (f a \<le> (f b :: int))"
    and "x \<in> S" "set xs \<subseteq> S" "sorted (map f xs)"
  shows "sorted (map f (insertBy c x xs))"
  using assms(2-)
proof (induction xs)
  case Nil
  then show ?case by simp
next
  case (Cons y ys)
  have cxy: "(c x y \<le> 0) = (f x \<le> f y)"
    using assms(1) Cons.prems by simp
  show ?case
  proof (cases "c x y \<le> 0")
    case True
    then show ?thesis using Cons.prems cxy by auto
  next
    case False
    then have "f y \<le> f x" using cxy by simp
    moreover have "sorted (map f (insertBy c x ys))"
      using Cons by simp
    ultimately show ?thesis
      using False Cons.prems by (auto simp: insertBy_set)
  qed
qed

lemma sortBy_set: "set (sortBy c xs) = set xs"
  by (induction xs) (simp_all add: sortBy_def insertBy_set)

lemma sortBy_length: "length (sortBy c xs) = length xs"
  by (induction xs) (simp_all add: sortBy_def insertBy_length)

lemma sortBy_distinct: "distinct (sortBy c xs) = distinct xs"
  by (induction xs) (simp_all add: sortBy_def insertBy_distinct sortBy_set [unfolded sortBy_def])

lemma sortBy_sorted:
  assumes "\<forall>a\<in>S. \<forall>b\<in>S. (c a b \<le> 0) = (f a \<le> (f b :: int))" and "set xs \<subseteq> S"
  shows "sorted (map f (sortBy c xs))"
  using assms(2)
proof (induction xs)
  case Nil
  then show ?case by (simp add: sortBy_def)
next
  case (Cons x xs)
  have "sortBy c (x # xs) = insertBy c x (sortBy c xs)"
    by (simp add: sortBy_def)
  then show ?case
    using insertBy_sorted [OF assms(1), of x "sortBy c xs"] Cons
    by (simp add: sortBy_set)
qed

lemma validKey_newDate: "validKey k \<Longrightarrow> newDate h (Str k) = Some (dateValue h k)"
proof -
  assume "validKey k"
  then obtain t where t: "\<bar>t\<bar> \<le> maxTime" "k = isoDate t"
    by (auto simp: validKey_def)
  have "newDate h (Str k) = Some (Day t * msPerDay)"
    unfolding t(2) by (rule newDate_isoDate [OF t(1)])
  then show ?thesis
    by (simp only: dateValue_def option.case)
qed

lemma validKey_nonempty: "validKey k \<Longrightarrow> k \<noteq> []"
  by (auto simp: validKey_def isoDate_nonempty)

lemma dateValue_inj:
  assumes "validKey a" "validKey b" "dateValue h a = dateValue h b"
  shows "a = b"
proof -
  obtain t u where t: "\<bar>t\<bar> \<le> maxTime" "a = isoDate t" and u: "\<bar>u\<bar> \<le> maxTime" "b = isoDate u"
    using assms(1,2) by (auto simp: validKey_def)
  have "dateValue h a = Day t * msPerDay" "dateValue h b = Day u * msPerDay"
    unfolding dateValue_def t(2) u(2)
    by (simp_all only: newDate_isoDate [OF t(1)] newDate_isoDate [OF u(1)] option.case)
  then have "Day t = Day u"
    using assms(3) by (simp add: msPerDay_def)
  then have "isoDate t = isoDate u"
    by (rule isoDate_Day)
  then show ?thesis
    by (simp only: t(2) u(2))
qed

lemma compareDates_valid:
  "validKey a \<Longrightarrow> validKey b \<Longrightarrow> compareDates h a b = dateValue h a - dateValue h b"
  by (simp only: compareDates_def validKey_newDate option.case)

lemma sortBy_compareDates:
  assumes "\<forall>k\<in>set ks. validKey k" "distinct ks"
  shows "set (sortBy (compareDates h) ks) = set ks
         \<and> distinct (sortBy (compareDates h) ks)
         \<and> sorted_wrt (<) (map (dateValue h) (sortBy (compareDates h) ks))"
proof -
  have c: "\<forall>a\<in>set ks. \<forall>b\<in>set ks.
             (compareDates h a b \<le> 0) = (dateValue h a \<le> dateValue h b)"
    using assms(1) by (simp add: compareDates_valid)
  have s: "sorted (map (dateValue h) (sortBy (compareDates h) ks))"
    by (rule sortBy_sorted [OF c]) simp
  have "inj_on (dateValue h) (set (sortBy (compareDates h) ks))"
    using assms(1) by (auto simp: inj_on_def sortBy_set intro: dateValue_inj)
  then have "distinct (map (dateValue h) (sortBy (compareDates h) ks))"
    using assms(2) by (simp add: distinct_map sortBy_distinct)
  then show ?thesis
    using s assms(2) by (simp add: sortBy_set sortBy_distinct strict_sorted_iff)
qed

subsection \<open>The composed chart\<close>

lemma foldl_length_sum:
  "foldl (\<lambda>totalPosts b. totalPosts + length (postsOf posts b)) n bs
     = n + sum_list (map (\<lambda>b. length (postsOf posts b)) bs)"
  by (induction bs arbitrary: n) simp_all

lemma hasData_iff: "hasData sel posts \<longleftrightarrow> (\<exists>b\<in>set sel. postsOf posts b \<noteq> [])"
  by (induction sel) (auto simp: hasData_def foldl_length_sum)

lemma loopState_no_posts:
  "\<forall>b\<in>set bs. postsOf posts b = [] \<Longrightarrow> loopState h pf posts st bs = st"
  by (induction bs arbitrary: st) (simp_all add: loopState_def)

lemma comparativeAvg_eq:
  "comparativeAvgSentimentOverTimeData h pf sel posts
     = Inr (if \<not> hasData sel posts then \<lparr>labels = [], datasets = []\<rparr>
            else composeChart h sel (loopState h pf posts emptyAcc sel))"
  by (simp add: comparativeAvgSentimentOverTimeData_def forEachBrand_eq)

lemma chartDates_no_data: "\<not> hasData sel posts \<Longrightarrow> chartDates h pf sel posts = []"
  by (simp add: chartDates_def hasData_iff loopState_no_posts sortedDatesOf_def emptyAcc_def
        sortBy_def)

lemma comparativeAvg_labels:
  "comparativeAvgSentimentOverTimeData h pf sel posts = Inr c
   \<Longrightarrow> labels c = map (formatDateForLabel h) (chartDates h pf sel posts)"
proof (cases "hasData sel posts")
  case True
  assume "comparativeAvgSentimentOverTimeData h pf sel posts = Inr c"
  then show ?thesis
    using True by (auto simp: comparativeAvg_eq composeChart_def Let_def chartDates_def)
next
  case False
  assume "comparativeAvgSentimentOverTimeData h pf sel posts = Inr c"
  then show ?thesis
    using False chartDates_no_data [OF False, of h pf] by (auto simp: comparativeAvg_eq)
qed

lemma allDates_final:
  "set (allDates (loopState h pf posts emptyAcc sel)) = set (qualifyingKeys h pf sel posts)
   \<and> distinct (allDates (loopState h pf posts emptyAcc sel))"
  using allDates_loop [of h pf posts emptyAcc sel] by (simp add: emptyAcc_def)

lemma qualifyingKeys_validKey: "k \<in> set (qualifyingKeys h pf sel posts) \<Longrightarrow> validKey k"
  using qualifyingKeys_valid [of k h pf sel posts] by (simp add: validKey_def)

lemma chartDates_props:
  "set (chartDates h pf sel posts) = set (qualifyingKeys h pf sel posts)
   \<and> distinct (chartDates h pf sel posts)
   \<and> sorted_wrt (<) (map (dateValue h) (chartDates h pf sel posts))"
proof -
  have "\<forall>k\<in>set (allDates (loopState h pf posts emptyAcc sel)). validKey k"
    using allDates_final [of h pf posts sel] qualifyingKeys_validKey by blast
  then show ?thesis
    using sortBy_compareDates [of "allDates (loopState h pf posts emptyAcc sel)" h]
      allDates_final [of h pf posts sel]
    by (simp add: chartDates_def sortedDatesOf_def)
qed

lemma qualifyingKeys_member:
  "k \<in> set (qualifyingKeys h pf sel posts)
     \<longleftrightarrow> (\<exists>b\<in>set sel. \<exists>p\<in>set (postsOf posts b). \<exists>s. postKey h pf p = Some (k, s))"
  by (auto simp: qualifyingKeys_def postKeys_member)

lemma concat_if_replicate:
  "concat (map (\<lambda>b'. if b = b' then f b' else []) bs) = concat (replicate (count_list bs b) (f b))"
  by (induction bs) auto

lemma sum_list_concat_replicate:
  "sum_list (concat (replicate n xs)) = real n * sum_list xs" for xs :: "real list"
  by (induction n) (simp_all add: algebra_simps)

lemma length_concat_replicate: "length (concat (replicate n xs)) = n * length xs"
  by (induction n) simp_all

lemma meanOf_replicate: "0 < n \<Longrightarrow> meanOf (concat (replicate n xs)) = meanOf xs"
  by (cases "xs = []")
     (auto simp: meanOf_def sum_list_concat_replicate length_concat_replicate)

lemma dayMean_final:
  assumes "b \<in> set sel"
  shows "dayMean (dailyBrandSentiments (loopState h pf posts emptyAcc sel)) b k
           = meanOf (dayScores h pf k (postsOf posts b))"
proof -
  have "lookupScores (dailyBrandSentiments (loopState h pf posts emptyAcc sel)) k b
          = concat (replicate (count_list sel b) (dayScores h pf k (postsOf posts b)))"
    using lookupScores_loop [of h pf posts emptyAcc sel k b]
      concat_if_replicate [of b "\<lambda>b'. dayScores h pf k (postsOf posts b')" sel]
    by (simp add: emptyAcc_def lookupScores_def)
  moreover have "0 < count_list sel b"
    using assms count_list_0_iff [of sel b] by auto
  ultimately show ?thesis
    by (simp add: dayMean_lookup meanOf_replicate)
qed

lemma otherDatasets_labels:
  "map label (otherDatasets d sd i bs) = filter (\<lambda>b. b \<noteq> nordstromBrandString) bs"
  by (induction bs arbitrary: i) (simp_all add: brandDataset_def Let_def)

lemma otherDatasets_series:
  "ds \<in> set (otherDatasets d sd i bs)
   \<Longrightarrow> label ds \<in> set bs \<and> seriesData ds = map (dayMean d (label ds)) sd"
  by (induction bs arbitrary: i) (auto simp: brandDataset_def Let_def split: if_splits)

lemma otherDatasets_length:
  "length (otherDatasets d sd i bs) = length (filter (\<lambda>b. b \<noteq> nordstromBrandString) bs)"
  using otherDatasets_labels [of d sd i bs] by (metis length_map)

lemma otherDatasets_colors:
  "j < length (otherDatasets d sd i bs)
   \<Longrightarrow> borderColor (otherDatasets d sd i bs ! j)
         = replaceFirst ''0.8'' ''1'' (vibrantColors ! ((i + j) mod length vibrantColors))
       \<and> backgroundColor (otherDatasets d sd i bs ! j)
         = replaceFirst ''0.8'' ''0.1'' (vibrantColors ! ((i + j) mod length vibrantColors))"
proof (induction bs arbitrary: i j)
  case Nil
  then show ?case by simp
next
  case (Cons b bs)
  show ?case
  proof (cases "b = nordstromBrandString")
    case True
    then show ?thesis using Cons by simp
  next
    case False
    show ?thesis
    proof (cases j)
      case 0
      then show ?thesis using False by (simp add: brandDataset_def Let_def)
    next
      case (Suc j')
      then show ?thesis using False Cons.IH [of j' "i + 1"] Cons.prems by simp
    qed
  qed
qed

lemma composeChart_series:
  assumes "ds \<in> set (datasets (composeChart h sel st))"
  shows "label ds \<in> set sel
         \<and> seriesData ds = map (dayMean (dailyBrandSentiments st) (label ds)) (sortedDatesOf h st)"
proof -
  from assms consider
    "nordstromBrandString \<in> set sel"
      "ds = nordstromDataset (dailyBrandSentiments st) (sortedDatesOf h st)"
    | "ds \<in> set (otherDatasets (dailyBrandSentiments st) (sortedDatesOf h st) 0 sel)"
    by (auto simp: composeChart_def Let_def split: if_splits)
  then show ?thesis
  proof cases
    case 1
    then show ?thesis by (simp add: nordstromDataset_def nordstromBrandString_def)
  next
    case 2
    then show ?thesis by (rule otherDatasets_series)
  qed
qed

lemma comparativeAvg_series:
  assumes "comparativeAvgSentimentOverTimeData h pf sel posts = Inr c"
    and "ds \<in> set (datasets c)"
  shows "label ds \<in> set sel
         \<and> seriesData ds
             = map (\<lambda>k. meanOf (dayScores h pf k (postsOf posts (label ds))))
                 (chartDates h pf sel posts)"
proof -
  have hd: "hasData sel posts"
    using assms by (auto simp: comparativeAvg_eq split: if_splits)
  then have c: "c = composeChart h sel (loopState h pf posts emptyAcc sel)"
    using assms(1) by (simp add: comparativeAvg_eq)
  have s: "label ds \<in> set sel
         \<and> seriesData ds = map (dayMean (dailyBrandSentiments (loopState h pf posts emptyAcc sel))
             (label ds)) (sortedDatesOf h (loopState h pf posts emptyAcc sel))"
    using assms(2) unfolding c by (rule composeChart_series)
  then show ?thesis
    by (simp add: dayMean_final chartDates_def)
qed



text \<open>
  C1, as amended. The label axis is the list of display labels of the date keys of the
  qualifying posts of the selected brands: the posts with a numeric sentiment score, a
  truthy timestamp and a timestamp that parses. Each key occurs once, every key denotes
  a date, and the keys are in ascending order of the dates they denote. A post whose
  timestamp fails to parse qualifies under no key.
\<close>

theorem labelAxis_sorted_keys:
  "\<exists>c. comparativeAvgSentimentOverTimeData h pf sel posts = Inr c
       \<and> labels c = map (formatDateForLabel h) (chartDates h pf sel posts)
       \<and> distinct (chartDates h pf sel posts)
       \<and> sorted_wrt (<) (map (dateValue h) (chartDates h pf sel posts))
       \<and> (\<forall>k\<in>set (chartDates h pf sel posts). newDate h (Str k) = Some (dateValue h k))
       \<and> (\<forall>k. k \<in> set (chartDates h pf sel posts)
              \<longleftrightarrow> (\<exists>b\<in>set sel. \<exists>p\<in>set (postsOf posts b). \<exists>s. postKey h pf p = Some (k, s)))
       \<and> (\<forall>p. formatDateForGrouping h (postTimestamp pf p) = Inr [] \<longrightarrow> postKey h pf p = None)"
proof -
  obtain c where c: "comparativeAvgSentimentOverTimeData h pf sel posts = Inr c"
    by (simp add: comparativeAvg_eq)
  note p = chartDates_props [of h pf sel posts]
  have v: "\<forall>k\<in>set (chartDates h pf sel posts). newDate h (Str k) = Some (dateValue h k)"
    using p qualifyingKeys_validKey validKey_newDate by blast
  have m: "\<forall>k. k \<in> set (chartDates h pf sel posts)
              \<longleftrightarrow> (\<exists>b\<in>set sel. \<exists>p\<in>set (postsOf posts b). \<exists>s. postKey h pf p = Some (k, s))"
    using p by (simp add: qualifyingKeys_member)
  have u: "\<forall>p. formatDateForGrouping h (postTimestamp pf p) = Inr [] \<longrightarrow> postKey h pf p = None"
    by (auto simp: postKey_def split: field.splits)
  show ?thesis
    using c comparativeAvg_labels [OF c] p v m u by blast
qed

lemma exampleSeries_chart:
  "comparativeAvgSentimentOverTimeData utcHost Instagram exampleBrands exampleSeries
     = Inr \<lparr>labels = [''Dec 31'', ''Jan 1'', ''Jan 2''],
            datasets = [\<lparr>label = ''Nordstrom'', seriesData = [None, None, Some 1],
                         borderColor = ''#004170'',
                         backgroundColor = ''rgba(0, 65, 112, 0.1)''\<rparr>,
                        \<lparr>label = ''A'', seriesData = [None, Some 0, None],
                         borderColor = ''rgba(219, 68, 55, 1)'',
                         backgroundColor = ''rgba(219, 68, 55, 0.1)''\<rparr>,
                        \<lparr>label = ''B'', seriesData = [Some (- 1), None, None],
                         borderColor = ''rgba(244, 180, 0, 1)'',
                         backgroundColor = ''rgba(244, 180, 0, 0.1)''\<rparr>]\<rparr>"
  by code_simp

lemma exampleSeries_dates:
  "chartDates utcHost Instagram exampleBrands exampleSeries
     = [''2023-12-31'', ''2024-01-01'', ''2024-01-02'']"
  by code_simp

theorem labelAxis_sorted_keys_witness:
  "comparativeAvgSentimentOverTimeData utcHost Instagram exampleBrands exampleSeries
     = Inr \<lparr>labels = [''Dec 31'', ''Jan 1'', ''Jan 2''],
            datasets = [\<lparr>label = ''Nordstrom'', seriesData = [None, None, Some 1],
                         borderColor = ''#004170'',
                         backgroundColor = ''rgba(0, 65, 112, 0.1)''\<rparr>,
                        \<lparr>label = ''A'', seriesData = [None, Some 0, None],
                         borderColor = ''rgba(219, 68, 55, 1)'',
                         backgroundColor = ''rgba(219, 68, 55, 0.1)''\<rparr>,
                        \<lparr>label = ''B'', seriesData = [Some (- 1), None, None],
                         borderColor = ''rgba(244, 180, 0, 1)'',
                         backgroundColor = ''rgba(244, 180, 0, 0.1)''\<rparr>]\<rparr>
   \<and> chartDates utcHost Instagram exampleBrands exampleSeries
       = [''2023-12-31'', ''2024-01-01'', ''2024-01-02'']
   \<and> map (dateValue utcHost) [''2023-12-31'', ''2024-01-01'', ''2024-01-02'']
       = [1703980800000, 1704067200000, 1704153600000]
   \<and> formatDateForGrouping utcHost (Str ''not a date'') = Inr []
   \<and> postKey utcHost Instagram (instagramPost (Str ''not a date'') (Some (Finite 5)) (Present 1) Absent)
       = None"
proof -
  have v: "map (dateValue utcHost) [''2023-12-31'', ''2024-01-01'', ''2024-01-02'']
       = [1703980800000, 1704067200000, 1704153600000]"
    by code_simp
  have f: "formatDateForGrouping utcHost (Str ''not a date'') = Inr []"
    by code_simp
  have ts: "postTimestamp Instagram (instagramPost (Str ''not a date'') (Some (Finite 5)) (Present 1) Absent)
      = Str ''not a date''"
    by (simp add: postTimestamp_def instagramPost_def)
  show ?thesis
    using labelAxis_sorted_keys [of utcHost Instagram exampleBrands exampleSeries]
      exampleSeries_chart exampleSeries_dates v f ts
    by auto
qed

text \<open>
  The claim as first stated takes the days of all posts. Brand A has a post on
  2024-01-02 that has a label and no score, and one without any sentiment: the day is
  a valid day of an input post, and it is not on the label axis.
\<close>

theorem labelAxis_sorted_keys_counterexample:
  "validDayKeys utcHost Instagram [''A'', ''B''] exampleInstagram
     = [''2024-01-01'', ''2024-01-02'']
   \<and> chartDates utcHost Instagram [''A'', ''B''] exampleInstagram = [''2024-01-01'']
   \<and> comparativeAvgSentimentOverTimeData utcHost Instagram [''A'', ''B''] exampleInstagram
       = Inr \<lparr>labels = [''Jan 1''],
              datasets = [\<lparr>label = ''A'', seriesData = [Some 0],
                           borderColor = ''rgba(219, 68, 55, 1)'',
                           backgroundColor = ''rgba(219, 68, 55, 0.1)''\<rparr>,
                          \<lparr>label = ''B'', seriesData = [None],
                           borderColor = ''rgba(244, 180, 0, 1)'',
                           backgroundColor = ''rgba(244, 180, 0, 0.1)''\<rparr>]\<rparr>"
  by code_simp

text \<open>
  C7, as amended. For every selection that includes the primary brand, when at least
  one selected brand has a post, the output lists the primary brand's series first, in
  its own colours, followed by the other selected brands in input order; the other
  brands take their colours from the palette by their position among themselves, and
  the palette repeats.
\<close>

theorem primary_brand_first:
  assumes "hasData sel posts" and "nordstromBrandString \<in> set sel"
  shows "\<exists>c. comparativeAvgSentimentOverTimeData h pf sel posts = Inr c
           \<and> map label (datasets c)
               = ''Nordstrom'' # filter (\<lambda>b. b \<noteq> nordstromBrandString) sel
           \<and> borderColor (datasets c ! 0) = NORDSTROM_BLUE
           \<and> backgroundColor (datasets c ! 0) = NORDSTROM_BLUE_FILL
           \<and> (\<forall>j<length (filter (\<lambda>b. b \<noteq> nordstromBrandString) sel).
                 borderColor (datasets c ! Suc j)
                   = replaceFirst ''0.8'' ''1'' (vibrantColors ! (j mod length vibrantColors))
                 \<and> backgroundColor (datasets c ! Suc j)
                   = replaceFirst ''0.8'' ''0.1'' (vibrantColors ! (j mod length vibrantColors)))"
proof -
  define st where "st = loopState h pf posts emptyAcc sel"
  define others where
    "others = otherDatasets (dailyBrandSentiments st) (sortedDatesOf h st) 0 sel"
  have c: "comparativeAvgSentimentOverTimeData h pf sel posts = Inr (composeChart h sel st)"
    using assms(1) by (simp add: comparativeAvg_eq st_def)
  have d: "datasets (composeChart h sel st)
             = nordstromDataset (dailyBrandSentiments st) (sortedDatesOf h st) # others"
    using assms(2) by (simp add: composeChart_def Let_def others_def)
  have l: "map label others = filter (\<lambda>b. b \<noteq> nordstromBrandString) sel"
    unfolding others_def by (rule otherDatasets_labels)
  have n: "length others = length (filter (\<lambda>b. b \<noteq> nordstromBrandString) sel)"
    unfolding others_def by (rule otherDatasets_length)
  have col: "\<forall>j<length (filter (\<lambda>b. b \<noteq> nordstromBrandString) sel).
                 borderColor (others ! j)
                   = replaceFirst ''0.8'' ''1'' (vibrantColors ! (j mod length vibrantColors))
                 \<and> backgroundColor (others ! j)
                   = replaceFirst ''0.8'' ''0.1'' (vibrantColors ! (j mod length vibrantColors))"
    using otherDatasets_colors [of _ "dailyBrandSentiments st" "sortedDatesOf h st" 0 sel] n
    by (simp add: others_def)
  show ?thesis
    using c d l col by (simp add: nordstromDataset_def)
qed

theorem primary_brand_first_witness:
  "hasData exampleBrands exampleSeries \<and> nordstromBrandString \<in> set exampleBrands
   \<and> comparativeAvgSentimentOverTimeData utcHost Instagram exampleBrands exampleSeries
     = Inr \<lparr>labels = [''Dec 31'', ''Jan 1'', ''Jan 2''],
            datasets = [\<lparr>label = ''Nordstrom'', seriesData = [None, None, Some 1],
                         borderColor = ''#004170'',
                         backgroundColor = ''rgba(0, 65, 112, 0.1)''\<rparr>,
                        \<lparr>label = ''A'', seriesData = [None, Some 0, None],
                         borderColor = ''rgba(219, 68, 55, 1)'',
                         backgroundColor = ''rgba(219, 68, 55, 0.1)''\<rparr>,
                        \<lparr>label = ''B'', seriesData = [Some (- 1), None, None],
                         borderColor = ''rgba(244, 180, 0, 1)'',
                         backgroundColor = ''rgba(244, 180, 0, 0.1)''\<rparr>]\<rparr>
   \<and> filter (\<lambda>b. b \<noteq> nordstromBrandString) exampleBrands = [''A'', ''B'']"
proof -
  have hd: "hasData exampleBrands exampleSeries"
    by code_simp
  have n: "nordstromBrandString \<in> set exampleBrands"
    by (simp add: exampleBrands_def nordstromBrandString_def)
  have f: "filter (\<lambda>b. b \<noteq> nordstromBrandString) exampleBrands = [''A'', ''B'']"
    by (simp add: exampleBrands_def nordstromBrandString_def)
  show ?thesis
    using primary_brand_first [OF hd n, of utcHost Instagram] exampleSeries_chart hd n f
    by simp
qed

text \<open>
  The claim as first stated fails without posts: the primary brand is selected, and the
  output has no series at all.
\<close>

theorem primary_brand_first_counterexample:
  "nordstromBrandString \<in> set [''Nordstrom'', ''A'']
   \<and> comparativeAvgSentimentOverTimeData utcHost Instagram [''Nordstrom'', ''A'']
         [''Nordstrom'' \<mapsto> [], ''A'' \<mapsto> []]
       = Inr \<lparr>labels = [], datasets = []\<rparr>"
  by code_simp

lemma labels_nonempty_scored:
  assumes "chartDates h pf sel posts \<noteq> []"
  shows "\<exists>b\<in>set sel. \<exists>p\<in>set (postsOf posts b). inObject (sentimentScore p)"
proof -
  obtain k where "k \<in> set (chartDates h pf sel posts)"
    using assms by (cases "chartDates h pf sel posts") auto
  then have "k \<in> set (qualifyingKeys h pf sel posts)"
    using chartDates_props [of h pf sel posts] by simp
  then obtain b p s where b: "b \<in> set sel" "p \<in> set (postsOf posts b)"
    and k: "postKey h pf p = Some (k, s)"
    by (auto simp: qualifyingKeys_member)
  have "inObject (sentimentScore p)"
    using k by (cases "sentimentScore p") (simp_all add: postKey_def)
  then show ?thesis using b by blast
qed

lemma checkAndFix_scored:
  assumes "\<exists>b\<in>set sel. \<exists>p\<in>set (postsOf posts b). inObject (sentimentScore p)"
  shows "\<not> checkAndFixTikTokData pf sel posts \<and> hasData sel posts"
proof -
  obtain b p where b: "b \<in> set sel" "p \<in> set (postsOf posts b)" "inObject (sentimentScore p)"
    using assms by blast
  then have ne: "postsOf posts b \<noteq> []" by auto
  have "list_ex (\<lambda>b. length (postsOf posts b) > 0 \<and>
          list_ex (\<lambda>p. inObject (sentimentScore p) \<or> inObject (sentimentLabel p))
            (postsOf posts b)) sel"
    using b ne by (auto simp: list_ex_iff)
  then have "\<not> checkAndFixTikTokData pf sel posts"
    by (simp add: checkAndFixTikTokData_def Let_def)
  moreover have "hasData sel posts"
    using b ne by (auto simp: hasData_iff)
  ultimately show ?thesis by simp
qed

text \<open>
  C8. Every vector of the output has one entry for each label, in the order of the
  labels, and its entry is \<open>null\<close> exactly where the brand has no qualifying post on
  the day of the label. The component shows the line chart exactly when the label list
  is not empty: whatever else the render layer tests (no posts at all, TikTok posts
  without sentiment fields), the fallback appears only with an empty label list.
\<close>

theorem series_aligned_with_labels:
  "\<exists>c v. comparativeAvgSentimentOverTimeData h pf sel posts = Inr c
         \<and> renderSentiment h pf sel posts = Inr v
         \<and> (\<forall>ds\<in>set (datasets c).
               length (seriesData ds) = length (labels c)
               \<and> (\<forall>i<length (labels c).
                     (seriesData ds ! i = None)
                       = (dayScores h pf (chartDates h pf sel posts ! i)
                            (postsOf posts (label ds)) = [])))
         \<and> (showsTimeSeries v \<longleftrightarrow> labels c \<noteq> [])"
proof -
  obtain c where c: "comparativeAvgSentimentOverTimeData h pf sel posts = Inr c"
    by (simp add: comparativeAvg_eq)
  have lab: "labels c = map (formatDateForLabel h) (chartDates h pf sel posts)"
    by (rule comparativeAvg_labels [OF c])
  have vec: "\<forall>ds\<in>set (datasets c).
               length (seriesData ds) = length (labels c)
               \<and> (\<forall>i<length (labels c).
                     (seriesData ds ! i = None)
                       = (dayScores h pf (chartDates h pf sel posts ! i)
                            (postsOf posts (label ds)) = []))"
    using comparativeAvg_series [OF c] lab by (simp add: meanOf_def)
  have "\<exists>v. renderSentiment h pf sel posts = Inr v"
    by (simp add: renderSentiment_def c)
  then obtain v where v: "renderSentiment h pf sel posts = Inr v" ..
  have "showsTimeSeries v \<longleftrightarrow> labels c \<noteq> []"
  proof (cases "labels c = []")
    case True
    then show ?thesis
      using v by (auto simp: renderSentiment_def c split: if_splits)
  next
    case False
    then have "chartDates h pf sel posts \<noteq> []" using lab by simp
    then have "\<not> checkAndFixTikTokData pf sel posts \<and> hasData sel posts"
      by (intro checkAndFix_scored labels_nonempty_scored)
    then show ?thesis
      using v False by (auto simp: renderSentiment_def c)
  qed
  then show ?thesis using c v vec by blast
qed

theorem series_aligned_with_labels_witness:
  "comparativeAvgSentimentOverTimeData utcHost Instagram exampleBrands exampleSeries
     = Inr \<lparr>labels = [''Dec 31'', ''Jan 1'', ''Jan 2''],
            datasets = [\<lparr>label = ''Nordstrom'', seriesData = [None, None, Some 1],
                         borderColor = ''#004170'',
                         backgroundColor = ''rgba(0, 65, 112, 0.1)''\<rparr>,
                        \<lparr>label = ''A'', seriesData = [None, Some 0, None],
                         borderColor = ''rgba(219, 68, 55, 1)'',
                         backgroundColor = ''rgba(219, 68, 55, 0.1)''\<rparr>,
                        \<lparr>label = ''B'', seriesData = [Some (- 1), None, None],
                         borderColor = ''rgba(244, 180, 0, 1)'',
                         backgroundColor = ''rgba(244, 180, 0, 0.1)''\<rparr>]\<rparr>
   \<and> renderSentiment utcHost Instagram exampleBrands exampleSeries = Inr (Charts Chart Chart)
   \<and> renderSentiment utcHost TikTok exampleBrands exampleSeries
       = Inr (Charts EmptyChartFallback Chart)"
proof -
  have r1: "renderSentiment utcHost Instagram exampleBrands exampleSeries
              = Inr (Charts Chart Chart)"
    by code_simp
  have r2: "renderSentiment utcHost TikTok exampleBrands exampleSeries
              = Inr (Charts EmptyChartFallback Chart)"
    by code_simp
  show ?thesis
    using series_aligned_with_labels [of utcHost Instagram exampleBrands exampleSeries]
      exampleSeries_chart r1 r2
    by simp
qed

subsection \<open>Posts that do not qualify\<close>

lemma stepPost_skip: "postKey h pf p = None \<Longrightarrow> stepPost h pf b st p = st"
  by (simp add: stepPost_def)

lemma foldl_stepPost_skip:
  "postKey h pf p = None
   \<Longrightarrow> foldl (stepPost h pf b) st (ps @ p # qs) = foldl (stepPost h pf b) st (ps @ qs)"
  by (simp add: stepPost_skip)

lemma postsOf_upd: "postsOf (posts(b \<mapsto> ps)) b' = (if b' = b then ps else postsOf posts b')"
  by (simp add: postsOf_def)

lemma loopState_skip:
  assumes "postKey h pf p = None"
  shows "loopState h pf (posts(b \<mapsto> ps @ p # qs)) st sel
           = loopState h pf (posts(b \<mapsto> ps @ qs)) st sel"
proof (induction sel arbitrary: st)
  case Nil
  then show ?case by (simp add: loopState_def)
next
  case (Cons b' bs)
  have step: "foldl (stepPost h pf b') st (postsOf (posts(b \<mapsto> ps @ p # qs)) b')
        = foldl (stepPost h pf b') st (postsOf (posts(b \<mapsto> ps @ qs)) b')"
  proof (cases "b' = b")
    case True
    then show ?thesis
      by (simp add: postsOf_upd stepPost_skip [OF assms])
  next
    case False
    then show ?thesis by (simp add: postsOf_upd)
  qed
  have unfold: "\<And>m. loopState h pf m st (b' # bs)
        = loopState h pf m (foldl (stepPost h pf b') st (postsOf m b')) bs"
    by (simp add: loopState_def)
  show ?case
    by (simp only: unfold step Cons.IH)
qed

lemma hasData_upd_more:
  "hasData sel (posts(b \<mapsto> ps @ qs)) \<Longrightarrow> hasData sel (posts(b \<mapsto> ps @ p # qs))"
  by (auto simp: hasData_iff postsOf_upd split: if_splits)

lemma comparativeAvg_skip:
  assumes "postKey h pf p = None" and "hasData sel (posts(b \<mapsto> ps @ qs))"
  shows "comparativeAvgSentimentOverTimeData h pf sel (posts(b \<mapsto> ps @ p # qs))
           = comparativeAvgSentimentOverTimeData h pf sel (posts(b \<mapsto> ps @ qs))"
  using assms(2) hasData_upd_more [OF assms(2), of p]
  by (simp add: comparativeAvg_eq loopState_skip [OF assms(1)])

lemma chartDates_skip:
  "postKey h pf p = None
   \<Longrightarrow> chartDates h pf sel (posts(b \<mapsto> ps @ p # qs)) = chartDates h pf sel (posts(b \<mapsto> ps @ qs))"
  by (simp add: chartDates_def loopState_skip)

lemma dayScores_skip:
  "postKey h pf p = None \<Longrightarrow> dayScores h pf k (ps @ p # qs) = dayScores h pf k (ps @ qs)"
  by (simp add: dayScores_def List.map_filter_def)







lemma formatDateForGrouping_zero: "formatDateForGrouping h (Num 0) = Inr ''1970-01-01''"
proof -
  have "groupingDate h (Num 0) = Some 0"
    by (simp add: groupingDate_def TimeClip_def)
  moreover have "isoDate 0 = ''1970-01-01''"
    by code_simp
  ultimately show ?thesis
    by (simp add: formatDateForGrouping_eq)
qed

text \<open>
  C10. A post whose timestamp is falsy (the number 0, the empty string, or no value)
  is skipped before its date is looked at, and so is a post whose sentiment score is
  not a number: the state of the loops, the label axis and every vector are those of
  the data set without the post, although the second 0 is the valid day 1970-01-01.
\<close>

theorem falsy_timestamp_excluded:
  assumes "\<not> truthy (postTimestamp pf p)"
  shows "addPost h pf b st p = Inr st
         \<and> loopState h pf (posts(b \<mapsto> ps @ p # qs)) emptyAcc sel
             = loopState h pf (posts(b \<mapsto> ps @ qs)) emptyAcc sel
         \<and> chartDates h pf sel (posts(b \<mapsto> ps @ p # qs))
             = chartDates h pf sel (posts(b \<mapsto> ps @ qs))
         \<and> dayScores h pf k (ps @ p # qs) = dayScores h pf k (ps @ qs)
         \<and> (hasData sel (posts(b \<mapsto> ps @ qs))
              \<longrightarrow> comparativeAvgSentimentOverTimeData h pf sel (posts(b \<mapsto> ps @ p # qs))
                    = comparativeAvgSentimentOverTimeData h pf sel (posts(b \<mapsto> ps @ qs)))
         \<and> (sentimentScore q = Absent \<or> sentimentScore q = Null
              \<longrightarrow> addPost h pf b st q = Inr st)
         \<and> \<not> truthy (Num 0) \<and> \<not> truthy (Str [])
         \<and> formatDateForGrouping h (Num 0) = Inr ''1970-01-01''"
proof -
  have k: "postKey h pf p = None"
    using assms by (auto simp: postKey_def split: field.splits)
  have "addPost h pf b st p = Inr st"
    by (simp add: addPost_eq stepPost_skip [OF k])
  moreover have "sentimentScore q = Absent \<or> sentimentScore q = Null
              \<longrightarrow> addPost h pf b st q = Inr st"
    by (auto simp: addPost_def)
  ultimately show ?thesis
    using loopState_skip [OF k] chartDates_skip [OF k] dayScores_skip [OF k]
      comparativeAvg_skip [OF k] formatDateForGrouping_zero
    by simp
qed

theorem falsy_timestamp_excluded_witness:
  "\<not> truthy (postTimestamp Instagram epochPost)
   \<and> hasData [''Nordstrom''] [''Nordstrom'' \<mapsto> [datedPost]]
   \<and> sentimentScore (postsA ! 3) = Absent
   \<and> formatDateForGrouping utcHost (postTimestamp Instagram epochPost) = Inr ''1970-01-01''
   \<and> addPost utcHost Instagram ''Nordstrom'' emptyAcc epochPost = Inr emptyAcc
   \<and> addPost utcHost Instagram ''Nordstrom'' emptyAcc (postsA ! 3) = Inr emptyAcc
   \<and> comparativeAvgSentimentOverTimeData utcHost Instagram [''Nordstrom'']
         [''Nordstrom'' \<mapsto> [epochPost, datedPost]]
       = Inr \<lparr>labels = [''Jan 2''],
              datasets = [\<lparr>label = ''Nordstrom'', seriesData = [Some 1],
                           borderColor = ''#004170'',
                           backgroundColor = ''rgba(0, 65, 112, 0.1)''\<rparr>]\<rparr>"
proof -
  have a: "\<not> truthy (postTimestamp Instagram epochPost)"
    and ts: "postTimestamp Instagram epochPost = Num 0"
    by (simp_all add: postTimestamp_def epochPost_def instagramPost_def)
  have s: "sentimentScore (postsA ! 3) = Absent"
    by (simp add: postsA_def instagramPost_def)
  have hd: "hasData [''Nordstrom''] [''Nordstrom'' \<mapsto> [datedPost]]"
    by code_simp
  have c: "comparativeAvgSentimentOverTimeData utcHost Instagram [''Nordstrom'']
         [''Nordstrom'' \<mapsto> [datedPost]]
       = Inr \<lparr>labels = [''Jan 2''],
              datasets = [\<lparr>label = ''Nordstrom'', seriesData = [Some 1],
                           borderColor = ''#004170'',
                           backgroundColor = ''rgba(0, 65, 112, 0.1)''\<rparr>]\<rparr>"
    by code_simp
  show ?thesis
    using falsy_timestamp_excluded [OF a, of utcHost "''Nordstrom''" emptyAcc Map.empty
        "[]" "[datedPost]" "[''Nordstrom'']" "''1970-01-01''" "postsA ! 3"] a ts s hd c
    by simp
qed

section \<open>Properties of the top hashtags\<close>

lemma firstSeen_empty: "(firstSeen xs = []) = (xs = [])"
  by (cases xs) simp_all

lemma pooledTags_empty:
  "(pooledTags posts sel = [])
     = (\<forall>b\<in>set sel. \<forall>p\<in>set (postsOf posts b). extractHashtags p = [])"
  by (auto simp: pooledTags_def brandTags_def)

lemma topHashtags_labels:
  assumes "topHashtags sd sel pf k = Inr c"
  shows "int (length (hashtagLabels c)) \<le> k
         \<and> (0 < k \<longrightarrow> (hashtagLabels c = []) = (pooledTags (platformPosts sd pf) sel = []))"
proof -
  define pooled where "pooled = pooledTags (platformPosts sd pf) sel"
  define ranked where
    "ranked = sortBy (\<lambda>a b. int (count_list pooled b) - int (count_list pooled a))
                (firstSeen pooled)"
  have k: "0 \<le> k"
    using assms by (auto simp: topHashtags_def split: if_splits)
  have c: "c = (if pooled = [] then \<lparr>hashtagLabels = [], hashtagSeries = []\<rparr>
                else \<lparr>hashtagLabels = take (nat k) ranked,
                      hashtagSeries =
                        map (\<lambda>b. (b, map (count_list (brandTags (platformPosts sd pf) b))
                                        (take (nat k) ranked))) sel\<rparr>)"
    using assms k by (auto simp: topHashtags_def Let_def pooled_def ranked_def split: if_splits)
  have r: "(ranked = []) = (pooled = [])"
    using sortBy_length [of _ "firstSeen pooled"] firstSeen_empty [of pooled]
    by (metis length_0_conv ranked_def)
  have "length (take (nat k) ranked) \<le> nat k"
    by simp
  then have "int (length (take (nat k) ranked)) \<le> k"
    using k by linarith
  then have "int (length (hashtagLabels c)) \<le> k"
    using k by (simp add: c del: length_take)
  moreover have "0 < k \<longrightarrow> (hashtagLabels c = []) = (pooled = [])"
    using r by (auto simp: c)
  ultimately show ?thesis by (simp add: pooled_def)
qed

lemma hashtagHasData_none:
  assumes "\<not> hashtagHasData (Some sd) sel"
  shows "pooledTags (platformPosts sd pf) sel = []"
proof -
  have "\<forall>b\<in>set sel. postsOf (instagram sd) b = [] \<and> postsOf (tiktok sd) b = []"
    using assms by (auto simp: hashtagHasData_def list_ex_iff)
  then have "\<forall>b\<in>set sel. postsOf (platformPosts sd pf) b = []"
    by (simp add: platformPosts_def)
  then show ?thesis
    by (simp add: pooledTags_empty)
qed

text \<open>
  C9. The chart of the top hashtags has at most five labels (at most \<open>k\<close> for
  \<open>topHashtags\<close> with any \<open>k\<close> it accepts). Its label list is empty exactly when no
  selected brand has a hashtag on the platform (so it is for \<open>topHashtags\<close> with any
  \<open>k\<close> above 0), and the component shows the fallback exactly when the label list is
  empty.
\<close>

theorem topHashtags_labels_bounded:
  "\<exists>c. unifiedChartData d sel pf = Inr c
       \<and> length (hashtagLabels c) \<le> 5
       \<and> ((hashtagLabels c = [])
            = (\<forall>sd. d = Some sd \<longrightarrow>
                 (\<forall>b\<in>set sel. \<forall>p\<in>set (postsOf (platformPosts sd pf) b). extractHashtags p = [])))
       \<and> renderHashtags d sel pf
           = Inr (if hashtagLabels c = [] then EmptyChartFallback else Chart)
       \<and> (\<forall>sd k c'. topHashtags sd sel pf k = Inr c' \<longrightarrow> int (length (hashtagLabels c')) \<le> k)
       \<and> (\<forall>sd k c'. topHashtags sd sel pf k = Inr c' \<and> 0 < k \<longrightarrow>
             ((hashtagLabels c' = [])
                = (\<forall>b\<in>set sel. \<forall>p\<in>set (postsOf (platformPosts sd pf) b).
                     extractHashtags p = [])))"
proof -
  have bound: "\<forall>sd k c'. topHashtags sd sel pf k = Inr c'
                   \<longrightarrow> int (length (hashtagLabels c')) \<le> k"
    using topHashtags_labels by blast
  have empty: "\<forall>sd k c'. topHashtags sd sel pf k = Inr c' \<and> 0 < k \<longrightarrow>
             ((hashtagLabels c' = [])
                = (\<forall>b\<in>set sel. \<forall>p\<in>set (postsOf (platformPosts sd pf) b).
                     extractHashtags p = []))"
  proof (intro allI impI)
    fix sd k c'
    assume a: "topHashtags sd sel pf k = Inr c' \<and> 0 < k"
    then have "(hashtagLabels c' = []) = (pooledTags (platformPosts sd pf) sel = [])"
      using topHashtags_labels [of sd sel pf k c'] by simp
    then show "(hashtagLabels c' = [])
                = (\<forall>b\<in>set sel. \<forall>p\<in>set (postsOf (platformPosts sd pf) b).
                     extractHashtags p = [])"
      by (simp only: pooledTags_empty)
  qed
  have component: "\<exists>c. unifiedChartData d sel pf = Inr c
       \<and> length (hashtagLabels c) \<le> 5
       \<and> ((hashtagLabels c = [])
            = (\<forall>sd. d = Some sd \<longrightarrow>
                 (\<forall>b\<in>set sel. \<forall>p\<in>set (postsOf (platformPosts sd pf) b). extractHashtags p = [])))
       \<and> renderHashtags d sel pf
           = Inr (if hashtagLabels c = [] then EmptyChartFallback else Chart)"
  proof (cases d)
    case None
    then show ?thesis
      by (simp add: unifiedChartData_def renderHashtags_def)
  next
    case (Some sd)
    show ?thesis
    proof (cases "hashtagHasData (Some sd) sel")
      case False
      have "pooledTags (platformPosts sd pf) sel = []"
        by (rule hashtagHasData_none [OF False])
      then have "\<forall>b\<in>set sel. \<forall>p\<in>set (postsOf (platformPosts sd pf) b). extractHashtags p = []"
        by (simp add: pooledTags_empty)
      then show ?thesis
        using Some False by (simp add: unifiedChartData_def renderHashtags_def)
    next
      case True
      have "\<exists>c. topHashtags sd sel pf 5 = Inr c"
        by (simp add: topHashtags_def Let_def)
      then obtain c where c: "topHashtags sd sel pf 5 = Inr c" ..
      have u: "unifiedChartData d sel pf = Inr c"
        using Some True c by (simp add: unifiedChartData_def generateUnifiedHashtagChart_def)
      have l: "int (length (hashtagLabels c)) \<le> 5"
        and e: "(hashtagLabels c = []) = (pooledTags (platformPosts sd pf) sel = [])"
        using topHashtags_labels [OF c] by simp_all
      have r: "renderHashtags d sel pf
                 = Inr (if hashtagLabels c = [] then EmptyChartFallback else Chart)"
        using True u unfolding Some by (simp add: renderHashtags_def)
      show ?thesis
        using u l e r Some by (simp add: pooledTags_empty)
    qed
  qed
  show ?thesis
    using component bound empty by blast
qed

theorem topHashtags_labels_bounded_witness:
  "unifiedChartData (Some exampleSocial) [''A'', ''B''] Instagram
     = Inr \<lparr>hashtagLabels = [''#sale'', ''#new''],
            hashtagSeries = [(''A'', [2, 1]), (''B'', [1, 0])]\<rparr>
   \<and> renderHashtags (Some exampleSocial) [''A'', ''B''] Instagram = Inr Chart
   \<and> unifiedChartData (Some exampleSocial) [''A'', ''B''] TikTok
       = Inr \<lparr>hashtagLabels = [], hashtagSeries = []\<rparr>
   \<and> renderHashtags (Some exampleSocial) [''A'', ''B''] TikTok = Inr EmptyChartFallback
   \<and> topHashtags exampleSocial [''A'', ''B''] Instagram 1
       = Inr \<lparr>hashtagLabels = [''#sale''], hashtagSeries = [(''A'', [2]), (''B'', [1])]\<rparr>"
proof -
  have a: "unifiedChartData (Some exampleSocial) [''A'', ''B''] Instagram
     = Inr \<lparr>hashtagLabels = [''#sale'', ''#new''],
            hashtagSeries = [(''A'', [2, 1]), (''B'', [1, 0])]\<rparr>"
    by code_simp
  have b: "unifiedChartData (Some exampleSocial) [''A'', ''B''] TikTok
       = Inr \<lparr>hashtagLabels = [], hashtagSeries = []\<rparr>"
    by code_simp
  have c: "topHashtags exampleSocial [''A'', ''B''] Instagram 1
       = Inr \<lparr>hashtagLabels = [''#sale''], hashtagSeries = [(''A'', [2]), (''B'', [1])]\<rparr>"
    by code_simp
  show ?thesis
    using topHashtags_labels_bounded [of "Some exampleSocial" "[''A'', ''B'']" Instagram]
      topHashtags_labels_bounded [of "Some exampleSocial" "[''A'', ''B'']" TikTok] a b c
    by simp
qed

end
